theory Spec2Isabelle
  imports Main "HOL-Library.AList" "HOL-Library.Sublist"
begin

section \<open>Python values, dictionaries and exceptions\<close>

text \<open>
  The engine of \<^verbatim>\<open>swarm/core.py\<close> moves JSON-like Python values around: message
  dictionaries, tool-call arguments, context variables. They are embedded as the
  datatype \<open>pyval\<close>. A Python \<^verbatim>\<open>str\<close> is a \<open>string\<close> whose characters stand for the
  code points 0..255; a Python \<^verbatim>\<open>dict\<close> with string keys is an association list in
  insertion order (the order is visible through \<^verbatim>\<open>str(dict)\<close>). A float is carried as
  the text of its literal and printed as that text, where Python prints the shortest
  text that reads back as the same float (the literal \<^verbatim>\<open>1.50\<close> is printed \<^verbatim>\<open>1.5\<close>): no
  arithmetic is done on it, and no property below reads one.
\<close>

datatype pyval =
    PNone
  | PBool bool
  | PInt int
  | PFloat string
  | PStr string
  | PList "pyval list"
  | PDict "(string \<times> pyval) list"

type_synonym 'v dict = "(string \<times> 'v) list"
type_synonym pydict = "pyval dict"

text \<open>
  Exceptions are values. \<open>Raised\<close> stands for any exception a collaborator (the
  network client, a tool function, an instructions callable) raises on its own.
  \<open>OutsideModel\<close> is not a Python exception: it marks a JSON text whose \<^verbatim>\<open>\u\<close> escape
  denotes a code point above 255, which \<open>string\<close> cannot hold.
\<close>

datatype error =
    ValueError string
  | TypeError string
  | KeyError string
  | IndexError
  | AttributeError
  | JSONDecodeError
  | Raised string
  | OutsideModel

text \<open>\<^verbatim>\<open>d[k] = v\<close>, \<^verbatim>\<open>d.update(u)\<close>, \<^verbatim>\<open>d.pop(k, None)\<close>, \<^verbatim>\<open>k in d\<close> and \<^verbatim>\<open>d.get(k)\<close>.\<close>

definition dict_set :: "'v dict \<Rightarrow> string \<Rightarrow> 'v \<Rightarrow> 'v dict" where
  "dict_set d k v = AList.update k v d"

definition dict_update :: "'v dict \<Rightarrow> 'v dict \<Rightarrow> 'v dict" where
  "dict_update d u = fold (\<lambda>kv acc. dict_set acc (fst kv) (snd kv)) u d"

definition dict_pop :: "'v dict \<Rightarrow> string \<Rightarrow> 'v dict" where
  "dict_pop d k = AList.delete k d"

definition dict_has :: "'v dict \<Rightarrow> string \<Rightarrow> bool" where
  "dict_has d k = (map_of d k \<noteq> None)"

definition dict_get :: "'v dict \<Rightarrow> string \<Rightarrow> 'v option" where
  "dict_get d k = map_of d k"

section \<open>Text: \<^verbatim>\<open>str\<close>, \<^verbatim>\<open>repr\<close>, \<^verbatim>\<open>replace\<close>, \<^verbatim>\<open>strip\<close>, \<^verbatim>\<open>json.dumps\<close>\<close>

definition squote :: char where "squote = CHR 0x27"
definition dquote :: char where "dquote = CHR 0x22"
definition backslash :: char where "backslash = CHR 0x5C"

definition code_point :: "char \<Rightarrow> nat" where
  "code_point c = of_char c"

definition hex_digit :: "nat \<Rightarrow> char" where
  "hex_digit n = ''0123456789abcdef'' ! (n mod 16)"

definition hex2 :: "char \<Rightarrow> string" where
  "hex2 c = [hex_digit (code_point c div 16), hex_digit (code_point c mod 16)]"

fun show_nat :: "nat \<Rightarrow> string" where
  "show_nat n =
     (if n < 10 then [''0123456789'' ! n]
      else show_nat (n div 10) @ [''0123456789'' ! (n mod 10)])"

declare show_nat.simps [simp del]

definition show_int :: "int \<Rightarrow> string" where
  "show_int i = (if i < 0 then CHR ''-'' # show_nat (nat (- i)) else show_nat (nat i))"

text \<open>\<^verbatim>\<open>sep.join(parts)\<close>.\<close>

fun join :: "string \<Rightarrow> string list \<Rightarrow> string" where
  "join sep [] = []"
| "join sep [x] = x"
| "join sep (x # y # ys) = x @ sep @ join sep (y # ys)"

text \<open>
  \<^verbatim>\<open>repr\<close> of a \<^verbatim>\<open>str\<close>: the text is quoted with single quotes, unless it holds a
  single quote and no double quote; the quote in use and the backslash are escaped,
  tab, newline and carriage return have short escapes, and the other code points that
  Python does not print (below 32, 127 to 160, 173) are written \<^verbatim>\<open>\xhh\<close>.
\<close>

definition printable :: "char \<Rightarrow> bool" where
  "printable c =
     (let n = code_point c in (32 \<le> n \<and> n < 127) \<or> (161 \<le> n \<and> n \<noteq> 173))"

definition repr_char :: "char \<Rightarrow> char \<Rightarrow> string" where
  "repr_char q c =
     (if c = backslash then [backslash, backslash]
      else if c = q then [backslash, q]
      else if c = CHR 0x09 then [backslash, CHR ''t'']
      else if c = CHR 0x0A then [backslash, CHR ''n'']
      else if c = CHR 0x0D then [backslash, CHR ''r'']
      else if printable c then [c]
      else backslash # CHR ''x'' # hex2 c)"

definition repr_str :: "string \<Rightarrow> string" where
  "repr_str s =
     (let q = (if squote \<in> set s \<and> dquote \<notin> set s then dquote else squote)
      in q # concat (map (repr_char q) s) @ [q])"

fun py_repr :: "pyval \<Rightarrow> string" where
  "py_repr PNone = ''None''"
| "py_repr (PBool b) = (if b then ''True'' else ''False'')"
| "py_repr (PInt i) = show_int i"
| "py_repr (PFloat s) = s"
| "py_repr (PStr s) = repr_str s"
| "py_repr (PList xs) = ''['' @ join '', '' (map py_repr xs) @ '']''"
| "py_repr (PDict kvs) =
     ''{'' @ join '', '' (map (\<lambda>kv. repr_str (fst kv) @ '': '' @ py_repr (snd kv)) kvs) @ ''}''"

text \<open>\<^verbatim>\<open>str(x)\<close>: a \<^verbatim>\<open>str\<close> is itself, every other value prints as its \<^verbatim>\<open>repr\<close>.\<close>

fun py_str :: "pyval \<Rightarrow> string" where
  "py_str (PStr s) = s"
| "py_str v = py_repr v"

text \<open>
  \<^verbatim>\<open>s.replace(old, new)\<close> for a non-empty \<open>old\<close>: every occurrence, left to right,
  without overlap.
\<close>

fun replace :: "string \<Rightarrow> string \<Rightarrow> string \<Rightarrow> string" where
  "replace old new [] = []"
| "replace old new (c # cs) =
     (if old \<noteq> [] \<and> prefix old (c # cs)
      then new @ replace old new (drop (length old - 1) cs)
      else c # replace old new cs)"

text \<open>\<^verbatim>\<open>s.strip()\<close>: the white space of Python among the code points 0..255.\<close>

definition py_space :: "char \<Rightarrow> bool" where
  "py_space c =
     (let n = code_point c in (9 \<le> n \<and> n \<le> 13) \<or> (28 \<le> n \<and> n \<le> 32) \<or> n = 133 \<or> n = 160)"

definition strip :: "string \<Rightarrow> string" where
  "strip s = rev (dropWhile py_space (rev (dropWhile py_space s)))"

text \<open>
  \<^verbatim>\<open>json.dumps\<close> with its defaults (\<^verbatim>\<open>ensure_ascii\<close>, separators \<^verbatim>\<open>", "\<close> and
  \<^verbatim>\<open>": "\<close>).
\<close>

definition json_escape_char :: "char \<Rightarrow> string" where
  "json_escape_char c =
     (if c = dquote then [backslash, dquote]
      else if c = backslash then [backslash, backslash]
      else if c = CHR 0x0A then [backslash, CHR ''n'']
      else if c = CHR 0x0D then [backslash, CHR ''r'']
      else if c = CHR 0x09 then [backslash, CHR ''t'']
      else if c = CHR 0x08 then [backslash, CHR ''b'']
      else if c = CHR 0x0C then [backslash, CHR ''f'']
      else if 32 \<le> code_point c \<and> code_point c < 127 then [c]
      else backslash # CHR ''u'' # CHR ''0'' # CHR ''0'' # hex2 c)"

definition json_str :: "string \<Rightarrow> string" where
  "json_str s = dquote # concat (map json_escape_char s) @ [dquote]"

fun json_dumps :: "pyval \<Rightarrow> string" where
  "json_dumps PNone = ''null''"
| "json_dumps (PBool b) = (if b then ''true'' else ''false'')"
| "json_dumps (PInt i) = show_int i"
| "json_dumps (PFloat s) = s"
| "json_dumps (PStr s) = json_str s"
| "json_dumps (PList xs) = ''['' @ join '', '' (map json_dumps xs) @ '']''"
| "json_dumps (PDict kvs) =
     ''{'' @ join '', '' (map (\<lambda>kv. json_str (fst kv) @ '': '' @ json_dumps (snd kv)) kvs) @ ''}''"

section \<open>\<^verbatim>\<open>json.loads\<close>\<close>

text \<open>
  The decoder of the Python standard library, as a scanner into tokens followed by a
  stack automaton over the tokens. Every way a text can be rejected is the one
  exception \<^verbatim>\<open>json.JSONDecodeError\<close>, so the order in which the library finds
  errors is not modelled.
\<close>

datatype tok = TLBrace | TRBrace | TLBrack | TRBrack | TColon | TComma | TAtom pyval

definition is_ws :: "char \<Rightarrow> bool" where
  "is_ws c = (c = CHR '' '' \<or> c = CHR 0x09 \<or> c = CHR 0x0A \<or> c = CHR 0x0D)"

definition is_digit :: "char \<Rightarrow> bool" where
  "is_digit c = (48 \<le> code_point c \<and> code_point c \<le> 57)"

definition hex_val :: "char \<Rightarrow> nat option" where
  "hex_val c =
     (let n = code_point c in
      if 48 \<le> n \<and> n \<le> 57 then Some (n - 48)
      else if 97 \<le> n \<and> n \<le> 102 then Some (n - 87)
      else if 65 \<le> n \<and> n \<le> 70 then Some (n - 55)
      else None)"

definition hex4 :: "char \<Rightarrow> char \<Rightarrow> char \<Rightarrow> char \<Rightarrow> nat option" where
  "hex4 a b c d =
     (case (hex_val a, hex_val b, hex_val c, hex_val d) of
        (Some w, Some x, Some y, Some z) \<Rightarrow> Some (((w * 16 + x) * 16 + y) * 16 + z)
      | _ \<Rightarrow> None)"

definition unescape :: "char \<Rightarrow> char option" where
  "unescape e =
     (if e = dquote then Some dquote
      else if e = backslash then Some backslash
      else if e = CHR ''/'' then Some (CHR ''/'')
      else if e = CHR ''b'' then Some (CHR 0x08)
      else if e = CHR ''f'' then Some (CHR 0x0C)
      else if e = CHR ''n'' then Some (CHR 0x0A)
      else if e = CHR ''r'' then Some (CHR 0x0D)
      else if e = CHR ''t'' then Some (CHR 0x09)
      else None)"

text \<open>
  An escape, after its backslash: the character it denotes and the rest of the input.
\<close>

definition scan_escape :: "string \<Rightarrow> error + (char \<times> string)" where
  "scan_escape cs =
     (case cs of
        [] \<Rightarrow> Inl JSONDecodeError
      | e # cs1 \<Rightarrow>
          if e = CHR ''u'' then
            (if length cs1 < 4 then Inl JSONDecodeError
             else
               (case hex4 (cs1 ! 0) (cs1 ! 1) (cs1 ! 2) (cs1 ! 3) of
                  None \<Rightarrow> Inl JSONDecodeError
                | Some n \<Rightarrow>
                    if n < 256 then Inr (char_of n, drop 4 cs1)
                    else Inl OutsideModel))
          else
            (case unescape e of
               None \<Rightarrow> Inl JSONDecodeError
             | Some ch \<Rightarrow> Inr (ch, cs1)))"

lemma scan_escape_shorter:
  "scan_escape cs = Inr (ch, rest) \<Longrightarrow> length rest < length cs"
  by (cases cs) (auto simp: scan_escape_def split: if_splits option.splits)

text \<open>
  The body of a string literal, after its opening quote: the decoded text and the
  rest of the input after the closing quote. A raw control character, an unknown
  escape and a missing closing quote are errors.
\<close>

function scan_string :: "string \<Rightarrow> string \<Rightarrow> error + (string \<times> string)" where
  "scan_string acc [] = Inl JSONDecodeError"
| "scan_string acc (c # cs) =
     (if c = dquote then Inr (acc, cs)
      else if c = backslash then
        (case scan_escape cs of
           Inl e \<Rightarrow> Inl e
         | Inr (ch, rest) \<Rightarrow> scan_string (acc @ [ch]) rest)
      else if code_point c < 32 then Inl JSONDecodeError
      else scan_string (acc @ [c]) cs)"
  by pat_completeness auto
termination
  by (relation "measure (\<lambda>(acc, cs). length cs)") (auto dest: scan_escape_shorter)

text \<open>
  A number at the head of the input, by the decoder's pattern
  \<^verbatim>\<open>(-?(?:0|[1-9]\d*))(\.\d+)?([eE][-+]?\d+)?\<close>: an \<^verbatim>\<open>int\<close> when there is neither a
  fraction nor an exponent, a float otherwise, kept as the text of its literal. The
  decoder's limit on the digits of an integer literal (4300 by default, a
  \<^verbatim>\<open>ValueError\<close> beyond) is not part of the model.
\<close>

fun nat_of_digits :: "nat \<Rightarrow> string \<Rightarrow> nat" where
  "nat_of_digits acc [] = acc"
| "nat_of_digits acc (c # cs) = nat_of_digits (acc * 10 + (code_point c - 48)) cs"

definition scan_fraction :: "string \<Rightarrow> string \<times> string" where
  "scan_fraction s =
     (case s of
        p # d # r \<Rightarrow>
          if p = CHR ''.'' \<and> is_digit d
          then (p # d # takeWhile is_digit r, dropWhile is_digit r)
          else ([], s)
      | _ \<Rightarrow> ([], s))"

definition scan_exponent :: "string \<Rightarrow> string \<times> string" where
  "scan_exponent s =
     (case s of
        e # r \<Rightarrow>
          if e = CHR ''e'' \<or> e = CHR ''E'' then
            (case r of
               g # d # r1 \<Rightarrow>
                 if (g = CHR ''+'' \<or> g = CHR ''-'') \<and> is_digit d
                 then (e # g # d # takeWhile is_digit r1, dropWhile is_digit r1)
                 else if is_digit g
                 then (e # g # takeWhile is_digit (d # r1), dropWhile is_digit (d # r1))
                 else ([], s)
             | [g] \<Rightarrow> if is_digit g then ([e, g], []) else ([], s)
             | [] \<Rightarrow> ([], s))
          else ([], s)
      | [] \<Rightarrow> ([], s))"

definition scan_unsigned :: "string \<Rightarrow> (string \<times> string \<times> string \<times> string) option" where
  "scan_unsigned s =
     (case s of
        [] \<Rightarrow> None
      | d # r \<Rightarrow>
          if \<not> is_digit d then None
          else
            (let ds = (if d = CHR ''0'' then [d] else d # takeWhile is_digit r);
                 r1 = (if d = CHR ''0'' then r else dropWhile is_digit r);
                 fr = scan_fraction r1;
                 ex = scan_exponent (snd fr)
             in Some (ds, fst fr, fst ex, snd ex)))"

definition scan_number :: "string \<Rightarrow> (pyval \<times> string) option" where
  "scan_number s =
     (let neg = (s \<noteq> [] \<and> hd s = CHR ''-'') in
      case scan_unsigned (if neg then tl s else s) of
        None \<Rightarrow> None
      | Some (ds, fr, ex, rest) \<Rightarrow>
          if fr = [] \<and> ex = []
          then Some (PInt (if neg then - int (nat_of_digits 0 ds) else int (nat_of_digits 0 ds)), rest)
          else Some (PFloat ((if neg then ''-'' else []) @ ds @ fr @ ex), rest))"

text \<open>
  The word at the head of the input: \<^verbatim>\<open>null\<close>, \<^verbatim>\<open>true\<close>, \<^verbatim>\<open>false\<close>, a number, or
  one of the three float names the decoder accepts.
\<close>

definition scan_word :: "string \<Rightarrow> (pyval \<times> string) option" where
  "scan_word s =
     (if prefix ''null'' s then Some (PNone, drop 4 s)
      else if prefix ''true'' s then Some (PBool True, drop 4 s)
      else if prefix ''false'' s then Some (PBool False, drop 5 s)
      else (case scan_number s of
              Some r \<Rightarrow> Some r
            | None \<Rightarrow>
                if prefix ''NaN'' s then Some (PFloat ''NaN'', drop 3 s)
                else if prefix ''Infinity'' s then Some (PFloat ''Infinity'', drop 8 s)
                else if prefix ''-Infinity'' s then Some (PFloat ''-Infinity'', drop 9 s)
                else None))"

definition punct :: "char \<Rightarrow> tok option" where
  "punct c =
     (if c = CHR ''{'' then Some TLBrace
      else if c = CHR ''}'' then Some TRBrace
      else if c = CHR ''['' then Some TLBrack
      else if c = CHR '']'' then Some TRBrack
      else if c = CHR '':'' then Some TColon
      else if c = CHR '','' then Some TComma
      else None)"

text \<open>
  One token from a non-empty input that starts with no white space: the token and the
  rest of the input.
\<close>

definition next_tok :: "char \<Rightarrow> string \<Rightarrow> error + (tok \<times> string)" where
  "next_tok c cs =
     (case punct c of
        Some t \<Rightarrow> Inr (t, cs)
      | None \<Rightarrow>
          if c = dquote then
            (case scan_string [] cs of
               Inl e \<Rightarrow> Inl e
             | Inr (s, rest) \<Rightarrow> Inr (TAtom (PStr s), rest))
          else
            (case scan_word (c # cs) of
               None \<Rightarrow> Inl JSONDecodeError
             | Some (v, rest) \<Rightarrow> Inr (TAtom v, rest)))"

text \<open>A token leaves less input than it was read from: the scanner terminates.\<close>

lemma scan_string_shorter:
  "scan_string acc cs = Inr (s, rest) \<Longrightarrow> length rest < Suc (length cs)"
proof (induction acc cs rule: scan_string.induct)
  case (1 acc)
  then show ?case by simp
next
  case (2 acc c cs)
  show ?case
  proof (cases "c = dquote")
    case True
    with "2.prems" show ?thesis by simp
  next
    case nq: False
    show ?thesis
    proof (cases "c = backslash")
      case True
      with nq "2.prems" obtain ch r where
        e: "scan_escape cs = Inr (ch, r)" and "scan_string (acc @ [ch]) r = Inr (s, rest)"
        by (auto split: sum.splits)
      with "2.IH"(1) [OF nq True e refl] scan_escape_shorter [OF e] show ?thesis
        by simp
    next
      case False
      with nq "2.prems" have c: "\<not> code_point c < 32"
        and "scan_string (acc @ [c]) cs = Inr (s, rest)"
        by (auto split: if_splits)
      with "2.IH"(2) [OF nq False c] show ?thesis
        by simp
    qed
  qed
qed

lemma scan_fraction_shorter: "length (snd (scan_fraction s)) \<le> length s"
  by (auto simp: scan_fraction_def le_SucI length_dropWhile_le split: list.splits)

lemma scan_exponent_shorter: "length (snd (scan_exponent s)) \<le> length s"
  by (auto simp: scan_exponent_def le_SucI length_dropWhile_le split: list.splits)

lemma scan_unsigned_shorter:
  assumes "scan_unsigned s = Some (ds, fr, ex, rest)"
  shows "length rest < length s"
proof -
  obtain d r where s: "s = d # r"
    using assms by (cases s) (auto simp: scan_unsigned_def)
  define r1 where "r1 = (if d = CHR ''0'' then r else dropWhile is_digit r)"
  have "length r1 \<le> length r"
    by (simp add: r1_def length_dropWhile_le)
  moreover have "rest = snd (scan_exponent (snd (scan_fraction r1)))"
    using assms by (auto simp: scan_unsigned_def s r1_def Let_def split: if_splits)
  moreover have "length (snd (scan_exponent (snd (scan_fraction r1)))) \<le> length r1"
    using scan_exponent_shorter scan_fraction_shorter le_trans by blast
  ultimately show ?thesis
    by (simp add: s)
qed

lemma scan_number_shorter:
  assumes "scan_number s = Some (v, rest)"
  shows "length rest < length s"
proof -
  obtain ds fr ex where u: "scan_unsigned (if s \<noteq> [] \<and> hd s = CHR ''-'' then tl s else s)
      = Some (ds, fr, ex, rest)"
    using assms by (auto simp: scan_number_def Let_def split: option.splits if_splits)
  have "length rest < length (if s \<noteq> [] \<and> hd s = CHR ''-'' then tl s else s)"
    by (rule scan_unsigned_shorter [OF u])
  then show ?thesis
    by (auto split: if_splits)
qed

lemma scan_word_shorter:
  assumes "scan_word s = Some (v, rest)"
  shows "length rest < length s"
proof (cases "scan_number s")
  case (Some r)
  show ?thesis
  proof (cases "prefix ''null'' s \<or> prefix ''true'' s \<or> prefix ''false'' s")
    case True
    then show ?thesis
      using assms by (auto simp: scan_word_def prefix_def split: if_splits)
  next
    case False
    then have "scan_number s = Some (v, rest)"
      using assms Some by (auto simp: scan_word_def)
    then show ?thesis by (rule scan_number_shorter)
  qed
next
  case None
  then show ?thesis
    using assms by (auto simp: scan_word_def prefix_def split: if_splits)
qed

lemma next_tok_shorter:
  assumes "next_tok c cs = Inr (t, rest)"
  shows "length rest < Suc (length cs)"
proof (cases "punct c")
  case (Some u)
  then show ?thesis
    using assms by (simp add: next_tok_def)
next
  case None
  show ?thesis
  proof (cases "c = dquote")
    case True
    then obtain s where "scan_string [] cs = Inr (s, rest)"
      using assms None by (auto simp: next_tok_def split: sum.splits)
    then show ?thesis by (rule scan_string_shorter)
  next
    case False
    then obtain v where "scan_word (c # cs) = Some (v, rest)"
      using assms None by (auto simp: next_tok_def split: option.splits)
    then show ?thesis
      using scan_word_shorter by fastforce
  qed
qed

function lex :: "string \<Rightarrow> error + tok list" where
  "lex [] = Inr []"
| "lex (c # cs) =
     (if is_ws c then lex cs
      else
        (case next_tok c cs of
           Inl e \<Rightarrow> Inl e
         | Inr (t, rest) \<Rightarrow>
             (case lex rest of
                Inl e \<Rightarrow> Inl e
              | Inr ts \<Rightarrow> Inr (t # ts))))"
  by pat_completeness auto
termination
  by (relation "measure length") (auto dest: next_tok_shorter)

text \<open>
  The automaton. A frame of the stack is an open array with the elements read so
  far, an open object with its pairs, or an open object whose next value belongs to the
  key it holds. \<open>expect\<close> is what may come next.
\<close>

datatype frame = FArr "pyval list" | FObj pydict | FKey pydict string

datatype expect =
    EValue
  | EValueOrClose
  | EKey
  | EKeyOrClose
  | EColon string
  | ESep
  | EEnd pyval

text \<open>A value is complete: it is the result, or it goes into the open container.\<close>

fun after_value :: "pyval \<Rightarrow> frame list \<Rightarrow> (expect \<times> frame list) option" where
  "after_value v [] = Some (EEnd v, [])"
| "after_value v (FArr xs # st) = Some (ESep, FArr (xs @ [v]) # st)"
| "after_value v (FKey kvs k # st) = Some (ESep, FObj (dict_set kvs k v) # st)"
| "after_value v (FObj kvs # st) = None"

text \<open>What the closing bracket or brace does to the open container on top of the stack.\<close>

definition close_array :: "frame list \<Rightarrow> (expect \<times> frame list) option" where
  "close_array st =
     (case st of
        FArr xs # st1 \<Rightarrow> after_value (PList xs) st1
      | _ \<Rightarrow> None)"

definition close_object :: "frame list \<Rightarrow> (expect \<times> frame list) option" where
  "close_object st =
     (case st of
        FObj kvs # st1 \<Rightarrow> after_value (PDict kvs) st1
      | _ \<Rightarrow> None)"

text \<open>A value is expected; \<open>may_close\<close> right after the opening bracket of an array.\<close>

definition value_tok :: "bool \<Rightarrow> frame list \<Rightarrow> tok \<Rightarrow> (expect \<times> frame list) option" where
  "value_tok may_close st t =
     (case t of
        TAtom v \<Rightarrow> after_value v st
      | TLBrack \<Rightarrow> Some (EValueOrClose, FArr [] # st)
      | TLBrace \<Rightarrow> Some (EKeyOrClose, FObj [] # st)
      | TRBrack \<Rightarrow> if may_close then close_array st else None
      | _ \<Rightarrow> None)"

text \<open>A key is expected; \<open>may_close\<close> right after the opening brace of an object.\<close>

definition key_tok :: "bool \<Rightarrow> frame list \<Rightarrow> tok \<Rightarrow> (expect \<times> frame list) option" where
  "key_tok may_close st t =
     (case t of
        TAtom v \<Rightarrow> (case v of PStr k \<Rightarrow> Some (EColon k, st) | _ \<Rightarrow> None)
      | TRBrace \<Rightarrow> if may_close then close_object st else None
      | _ \<Rightarrow> None)"

definition colon_tok :: "string \<Rightarrow> frame list \<Rightarrow> tok \<Rightarrow> (expect \<times> frame list) option" where
  "colon_tok k st t =
     (case t of
        TColon \<Rightarrow>
          (case st of
             FObj kvs # st1 \<Rightarrow> Some (EValue, FKey kvs k # st1)
           | _ \<Rightarrow> None)
      | _ \<Rightarrow> None)"

text \<open>After a value inside a container: a comma, or the container's closing token.\<close>

definition sep_tok :: "frame list \<Rightarrow> tok \<Rightarrow> (expect \<times> frame list) option" where
  "sep_tok st t =
     (case t of
        TComma \<Rightarrow>
          (case st of
             FArr xs # st1 \<Rightarrow> Some (EValue, st)
           | FObj kvs # st1 \<Rightarrow> Some (EKey, st)
           | _ \<Rightarrow> None)
      | TRBrack \<Rightarrow> close_array st
      | TRBrace \<Rightarrow> close_object st
      | _ \<Rightarrow> None)"

definition step_tok :: "expect \<Rightarrow> frame list \<Rightarrow> tok \<Rightarrow> (expect \<times> frame list) option" where
  "step_tok ex st t =
     (case ex of
        EValue \<Rightarrow> value_tok False st t
      | EValueOrClose \<Rightarrow> value_tok True st t
      | EKey \<Rightarrow> key_tok False st t
      | EKeyOrClose \<Rightarrow> key_tok True st t
      | EColon k \<Rightarrow> colon_tok k st t
      | ESep \<Rightarrow> sep_tok st t
      | EEnd v \<Rightarrow> None)"

fun parse :: "expect \<Rightarrow> frame list \<Rightarrow> tok list \<Rightarrow> pyval option" where
  "parse ex st [] = (case ex of EEnd v \<Rightarrow> Some v | _ \<Rightarrow> None)"
| "parse ex st (t # ts) =
     (case step_tok ex st t of
        None \<Rightarrow> None
      | Some (ex', st') \<Rightarrow> parse ex' st' ts)"

definition json_loads :: "string \<Rightarrow> error + pyval" where
  "json_loads s =
     (case lex s of
        Inl e \<Rightarrow> Inl e
      | Inr ts \<Rightarrow>
          (case parse EValue [] ts of
             None \<Rightarrow> Inl JSONDecodeError
           | Some v \<Rightarrow> Inr v))"

section \<open>The data model of the engine\<close>

text \<open>
  Modelled from the spec: the tool descriptor that the reflection utility
  \<^verbatim>\<open>function_to_json\<close> of \<^verbatim>\<open>util.py\<close> returns for a tool function (the utility is
  not among the sources). It has a name, a description, the \<^verbatim>\<open>properties\<close>
  dictionary of the parameters and the \<^verbatim>\<open>required\<close> list of parameter names. What the
  utility computes is not modelled: a tool function carries its descriptor.
\<close>

datatype tool =
  Tool (tool_name: string) (tool_description: string)
       (tool_properties: pydict) (tool_required: "string list")

text \<open>\<^verbatim>\<open>Agent.instructions\<close> is a text, or a callable of the context variables.\<close>

datatype instructions = Static string | Dynamic "pydict \<Rightarrow> error + string"

text \<open>
  Modelled from the spec: the classes \<^verbatim>\<open>Agent\<close>, \<^verbatim>\<open>Result\<close> and \<^verbatim>\<open>Response\<close> of
  \<^verbatim>\<open>types.py\<close>, which is not among the sources, with the fields that \<^verbatim>\<open>core.py\<close>
  reads and writes.
  An agent owns tool functions, and a tool function may return an agent: the types are
  mutually recursive. A tool function is its \<^verbatim>\<open>__name__\<close>, its
  \<^verbatim>\<open>__code__.co_varnames\<close>, its descriptor, and what a call with keyword arguments
  does: raise, or return a raw value. A raw value is a \<^verbatim>\<open>Result\<close>, an \<^verbatim>\<open>Agent\<close>, or
  any other object, which is known to the engine by what \<^verbatim>\<open>str\<close> makes of it and by
  what formatting it into an f-string makes of it (for most objects the two agree).
\<close>

datatype agent =
  Agent (agent_name: string) (agent_model: "string option")
        (agent_instructions: instructions) (agent_functions: "agent_function list")
        (agent_tool_choice: pyval) (agent_parallel_tool_calls: bool)
and agent_function =
  AgentFunction (fn_name: string) (fn_varnames: "string list") (fn_to_json: tool)
                (fn_call: "pydict \<Rightarrow> error + raw_result")
and raw_result =
    RResult result
  | RAgent agent
  | ROther (other_str: "error + string") (other_format: "error + string")
and result =
  Result (result_value: string) (result_agent: "agent option")
         (result_context_variables: pydict)

text \<open>\<^verbatim>\<open>Response\<close>: the messages, the agent (absent in a fresh partial response) and
  the context variables.\<close>

datatype response =
  Response (messages: "pydict list") (agent: "agent option") (context_variables: pydict)

definition CTX_VARS_NAME :: string where
  "CTX_VARS_NAME = ''context_variables''"

section \<open>The result normalizer: \<^verbatim>\<open>handle_function_result\<close>\<close>

text \<open>\<^verbatim>\<open>str(e)\<close> of an exception: its message, where the model keeps one.\<close>

fun error_text :: "error \<Rightarrow> string" where
  "error_text (ValueError m) = m"
| "error_text (TypeError m) = m"
| "error_text (KeyError k) = repr_str k"
| "error_text (Raised m) = m"
| "error_text e = []"

definition cast_error_message :: "string \<Rightarrow> string \<Rightarrow> string" where
  "cast_error_message shown err =
     ''Failed to cast response to string: '' @ shown @
     ''. Make sure agent functions return a string or Result object. Error: '' @ err"

text \<open>
  The three cases of the \<^verbatim>\<open>match\<close>. In the last one \<^verbatim>\<open>str(result)\<close> is tried; when
  it raises, the handler builds its message with an f-string that formats \<^verbatim>\<open>result\<close>
  again, so an exception of that formatting leaves the handler in place of the
  \<^verbatim>\<open>TypeError\<close>. (\<^verbatim>\<open>debug_print\<close> only prints; it is left out.)
\<close>

fun handle_function_result :: "raw_result \<Rightarrow> error + result" where
  "handle_function_result (RResult r) = Inr r"
| "handle_function_result (RAgent a) =
     Inr (Result (json_dumps (PDict [(''assistant'', PStr (agent_name a))])) (Some a) [])"
| "handle_function_result (ROther s f) =
     (case s of
        Inr rendered \<Rightarrow> Inr (Result rendered None [])
      | Inl e \<Rightarrow>
          (case f of
             Inl e' \<Rightarrow> Inl e'
           | Inr shown \<Rightarrow> Inl (TypeError (cast_error_message shown (error_text e)))))"

section \<open>The engine, the client and the completion request\<close>

text \<open>
  The keyword arguments of \<^verbatim>\<open>client.chat.completions.create\<close> are a dictionary
  \<^verbatim>\<open>create_params\<close>; \<open>param\<close> is the type of its values.
\<close>

datatype param =
    ParNone
  | ParBool bool
  | ParStr string
  | ParVal pyval
  | ParMessages "pydict list"
  | ParTools "tool list"

type_synonym create_params = "param dict"

text \<open>
  What the client returns. A tool call is \<^verbatim>\<open>ChatCompletionMessageToolCall\<close> (its
  \<^verbatim>\<open>function\<close> flattened into name and arguments); a message is the assistant message
  of a choice, with the \<^verbatim>\<open>sender\<close> attribute the engine sets; a delta is the increment
  of a streamed choice. A buffered completion is the list of its choices' messages, a
  streamed one the list of its chunks, each chunk the list of its choices' deltas.
\<close>

datatype tool_call =
  ToolCall (tc_id: string) (tc_name: string) (tc_arguments: string) (tc_type: string)

datatype message =
  Message (msg_content: "string option") (msg_role: string)
          (msg_tool_calls: "tool_call list option") (msg_sender: "string option")

datatype tool_call_delta =
  ToolCallDelta (tcd_index: nat) (tcd_id: "string option") (tcd_name: "string option")
                (tcd_arguments: "string option") (tcd_type: "string option")

datatype delta =
  Delta (delta_role: "string option") (delta_content: "string option")
        (delta_tool_calls: "tool_call_delta list option")

datatype completion = ChatCompletion "message list" | ChunkStream "delta list list"

text \<open>
  The network client is a collaborator: a function of the requests it has answered so
  far and of the request, which raises or returns a completion. The engine is its
  \<^verbatim>\<open>mode\<close> and its \<^verbatim>\<open>client\<close>.
\<close>

type_synonym client = "create_params list \<Rightarrow> create_params \<Rightarrow> error + completion"

record swarm =
  mode :: string
  client :: "client option"

text \<open>
  \<^verbatim>\<open>Swarm.__init__\<close>. \<open>OpenAI\<close> is the constructor of the client library, given the
  \<^verbatim>\<open>api_key\<close> and \<^verbatim>\<open>base_url\<close> it is called with.
\<close>

definition init ::
  "(string option \<Rightarrow> string option \<Rightarrow> error + client) \<Rightarrow> client option \<Rightarrow> string \<Rightarrow> string
     \<Rightarrow> error + swarm" where
  "init OpenAI client0 mode0 GEMINI_API_KEY =
     (if mode0 = [] then Inl (ValueError ''Please set mode (e.g., openai, gemini, ollama).'')
      else
        (case client0 of
           Some c \<Rightarrow> Inr \<lparr>mode = mode0, client = Some c\<rparr>
         | None \<Rightarrow>
             if mode0 = ''ollama'' then
               (case OpenAI (Some ''ollama'') (Some ''http://localhost:11434/v1'') of
                  Inl e \<Rightarrow> Inl e
                | Inr c \<Rightarrow> Inr \<lparr>mode = mode0, client = Some c\<rparr>)
             else if mode0 = ''gemini'' then
               (if GEMINI_API_KEY \<noteq> [] then
                  (case OpenAI (Some GEMINI_API_KEY)
                          (Some ''https://generativelanguage.googleapis.com/v1beta/openai/'') of
                     Inl e \<Rightarrow> Inl e
                   | Inr c \<Rightarrow> Inr \<lparr>mode = mode0, client = Some c\<rparr>)
                else Inl (ValueError ''Please provide GEMINI_API_KEY !''))
             else if mode0 = ''openai'' then
               (case OpenAI None None of
                  Inl e \<Rightarrow> Inl e
                | Inr c \<Rightarrow> Inr \<lparr>mode = mode0, client = Some c\<rparr>)
             else Inr \<lparr>mode = mode0, client = None\<rparr>))"

text \<open>Truth value of an optional text: \<^verbatim>\<open>None\<close> and the empty text are false.\<close>

definition truthy :: "string option \<Rightarrow> bool" where
  "truthy s = (case s of None \<Rightarrow> False | Some t \<Rightarrow> t \<noteq> [])"

text \<open>\<^verbatim>\<open>a or b\<close> on optional texts.\<close>

definition py_or :: "string option \<Rightarrow> string option \<Rightarrow> string option" where
  "py_or a b = (if truthy a then a else b)"

definition opt_param :: "string option \<Rightarrow> param" where
  "opt_param s = (case s of None \<Rightarrow> ParNone | Some t \<Rightarrow> ParStr t)"

definition config_error :: error where
  "config_error = ValueError
     ''Please provide either the agent model name or model_override that is compatible with the current mode.''"

text \<open>
  The loop that hides the context variables from the model: the key is popped from
  \<^verbatim>\<open>properties\<close>, and \<^verbatim>\<open>required.remove\<close> takes out its first occurrence.
\<close>

definition hide_context_variables :: "tool \<Rightarrow> tool" where
  "hide_context_variables t =
     Tool (tool_name t) (tool_description t)
          (dict_pop (tool_properties t) CTX_VARS_NAME)
          (if CTX_VARS_NAME \<in> set (tool_required t)
           then remove1 CTX_VARS_NAME (tool_required t)
           else tool_required t)"

definition tools_of :: "agent \<Rightarrow> tool list" where
  "tools_of a = map (\<lambda>f. hide_context_variables (fn_to_json f)) (agent_functions a)"

definition resolve_instructions :: "agent \<Rightarrow> pydict \<Rightarrow> error + string" where
  "resolve_instructions a cv =
     (case agent_instructions a of
        Static s \<Rightarrow> Inr s
      | Dynamic f \<Rightarrow> f cv)"

definition build_create_params ::
  "agent \<Rightarrow> pydict list \<Rightarrow> string option \<Rightarrow> bool \<Rightarrow> create_params \<Rightarrow> create_params" where
  "build_create_params a msgs model_override stream model_config =
     dict_update
       [(''model'', opt_param (py_or model_override (agent_model a))),
        (''messages'', ParMessages msgs),
        (''tools'', if tools_of a = [] then ParNone else ParTools (tools_of a)),
        (''tool_choice'', ParVal (agent_tool_choice a)),
        (''stream'', ParBool stream)]
       model_config"

text \<open>
  One call of the client. The requests sent so far are kept as a log, which the call
  extends; an engine without a client fails on the attribute access.
\<close>

definition call_client ::
  "swarm \<Rightarrow> create_params list \<Rightarrow> create_params \<Rightarrow> (error + completion) \<times> create_params list" where
  "call_client sw log req =
     (case client sw of
        None \<Rightarrow> (Inl AttributeError, log)
      | Some c \<Rightarrow> (c log req, log @ [req]))"

text \<open>
  \<^verbatim>\<open>get_chat_completion\<close>: the outcome and the log of requests. The outcome is an
  exception, a completion, or \<^verbatim>\<open>None\<close> in a mode that is neither of the three.
  The second \<^verbatim>\<open>except ValueError\<close> clause of the source can never be taken, the first
  clause catches every exception; an exception of the retry inside the handler leaves
  the function as it is. The warning that the handler prints is left out.
\<close>

definition get_chat_completion ::
  "swarm \<Rightarrow> create_params list \<Rightarrow> agent \<Rightarrow> pydict list \<Rightarrow> pydict \<Rightarrow> string option \<Rightarrow> bool
     \<Rightarrow> create_params \<Rightarrow> (error + completion option) \<times> create_params list" where
  "get_chat_completion sw log a history cv model_override stream model_config =
     (case resolve_instructions a cv of
        Inl e \<Rightarrow> (Inl e, log)
      | Inr instr \<Rightarrow>
          if \<not> truthy (agent_model a) \<and> \<not> truthy model_override then (Inl config_error, log)
          else
            (let msgs = [(''role'', PStr ''system''), (''content'', PStr instr)] # history;
                 cp = build_create_params a msgs model_override stream model_config
             in
               if mode sw = ''ollama'' \<or> mode sw = ''openai'' then
                 (let cp1 = (if tools_of a \<noteq> []
                             then dict_set cp ''parallel_tool_calls'' (ParBool (agent_parallel_tool_calls a))
                             else cp);
                      first = call_client sw log cp1
                  in
                    case fst first of
                      Inr c \<Rightarrow> (Inr (Some c), snd first)
                    | Inl e \<Rightarrow>
                        (let cp2 = dict_set (dict_set cp1 ''tools'' ParNone) ''tool_choice'' ParNone;
                             second = call_client sw (snd first) cp2
                         in
                           case fst second of
                             Inr c \<Rightarrow> (Inr (Some c), snd second)
                           | Inl e2 \<Rightarrow> (Inl e2, snd second)))
               else if mode sw = ''gemini'' then
                 (let only = call_client sw log cp
                  in
                    case fst only of
                      Inr c \<Rightarrow> (Inr (Some c), snd only)
                    | Inl e \<Rightarrow> (Inl config_error, snd only))
               else (Inr None, log)))"

section \<open>Example inputs\<close>

text \<open>
  Concrete collaborators at which the properties below are evaluated: a tool function
  that declares the hidden parameter, an agent that owns it, a raw value whose
  \<^verbatim>\<open>__str__\<close> raises (and which has the default \<^verbatim>\<open>__format__\<close>), and a client that
  rejects every request.
\<close>

definition ex_descriptor :: tool where
  "ex_descriptor =
     Tool ''get_weather'' ''Weather of a place.''
       [(''location'', PDict [(''type'', PStr ''string'')]),
        (''context_variables'', PDict [(''type'', PStr ''string'')])]
       [''location'', ''context_variables'']"

definition ex_get_weather :: agent_function where
  "ex_get_weather =
     AgentFunction ''get_weather'' [''location'', ''context_variables''] ex_descriptor
       (\<lambda>args. Inr (ROther (Inr ''sunny'') (Inr ''sunny'')))"

definition ex_agent :: agent where
  "ex_agent =
     Agent ''A'' (Some ''gpt-4o'') (Static ''You are a helpful agent.'') [ex_get_weather] PNone True"

definition ex_unprintable :: raw_result where
  "ex_unprintable = ROther (Inl (Raised ''boom'')) (Inl (Raised ''boom''))"

definition failing_client :: client where
  "failing_client log req = Inl (Raised ''rejected'')"

section \<open>The tool call dispatcher: \<^verbatim>\<open>handle_tool_calls\<close>\<close>

text \<open>\<^verbatim>\<open>a in b\<close> on texts: \<open>a\<close> occurs in \<open>b\<close>. The source writes
  \<^verbatim>\<open>self.mode in ("gemini")\<close>, where the right-hand side is a text, not a tuple.\<close>

fun str_in :: "string \<Rightarrow> string \<Rightarrow> bool" where
  "str_in xs [] = (xs = [])"
| "str_in xs (y # ys) = (prefix xs (y # ys) \<or> str_in xs ys)"

definition tool_capable :: "string \<Rightarrow> bool" where
  "tool_capable md = (md = ''ollama'' \<or> md = ''openai'')"

definition in_gemini :: "string \<Rightarrow> bool" where
  "in_gemini md = str_in md ''gemini''"

text \<open>\<^verbatim>\<open>{f.__name__: f for f in functions}\<close>: on a repeated name the later function stays.\<close>

definition function_map :: "agent_function list \<Rightarrow> agent_function dict" where
  "function_map fns = fold (\<lambda>f d. dict_set d (fn_name f) f) fns []"

text \<open>
  The state of the loop over the tool calls: the partial response, and the calls of
  tool functions made so far, each with the keyword arguments it was given.
\<close>

type_synonym dispatch = "response \<times> (string \<times> pydict) list"

definition add_message :: "pydict \<Rightarrow> dispatch \<Rightarrow> dispatch" where
  "add_message m st =
     (Response (messages (fst st) @ [m]) (agent (fst st)) (context_variables (fst st)), snd st)"

definition not_found_text :: "string \<Rightarrow> string" where
  "not_found_text name = ''Error: Tool '' @ name @ '' not found.''"

definition tool_message :: "tool_call \<Rightarrow> string \<Rightarrow> pydict" where
  "tool_message tc content =
     [(''role'', PStr ''tool''), (''tool_call_id'', PStr (tc_id tc)),
      (''tool_name'', PStr (tc_name tc)), (''content'', PStr content)]"

definition assistant_message :: "string \<Rightarrow> pydict" where
  "assistant_message content = [(''role'', PStr ''assistant''), (''content'', PStr content)]"

definition returned_text :: "string \<Rightarrow> string \<Rightarrow> pydict \<Rightarrow> string" where
  "returned_text name v args =
     ''Tool '' @ name @ '' returned: '' @ v @ ''. '' @ [CHR 0x0A] @ ''Tool_call args: '' @
     py_str (PDict args)"

text \<open>
  A call whose name is in the function map: the arguments are decoded, the context
  variables are injected when the function has a variable of that name, the function is
  called with the arguments as keywords, and its raw value is normalized. The outcome
  is the canonical result and the keyword arguments of the call.
\<close>

definition call_tool ::
  "agent_function dict \<Rightarrow> pydict \<Rightarrow> tool_call \<Rightarrow> error + (result \<times> pydict)" where
  "call_tool fmap cv tc =
     (case json_loads (tc_arguments tc) of
        Inl e \<Rightarrow> Inl e
      | Inr decoded \<Rightarrow>
          (case dict_get fmap (tc_name tc) of
             None \<Rightarrow> Inl (KeyError (tc_name tc))
           | Some func \<Rightarrow>
               (case decoded of
                  PDict d \<Rightarrow>
                    (let args = (if CTX_VARS_NAME \<in> set (fn_varnames func)
                                 then dict_set d CTX_VARS_NAME (PDict cv) else d)
                     in
                       case fn_call func args of
                         Inl e \<Rightarrow> Inl e
                       | Inr raw \<Rightarrow>
                           (case handle_function_result raw of
                              Inl e \<Rightarrow> Inl e
                            | Inr res \<Rightarrow> Inr (res, args)))
                | _ \<Rightarrow> Inl (TypeError ''the arguments are not a mapping''))))"

text \<open>What a completed call leaves in the partial response.\<close>

definition record_result :: "string \<Rightarrow> tool_call \<Rightarrow> result \<Rightarrow> pydict \<Rightarrow> dispatch \<Rightarrow> dispatch" where
  "record_result md tc res args st =
     (let msgs = (if tool_capable md
                  then messages (fst st) @ [tool_message tc (result_value res)]
                  else if in_gemini md
                  then messages (fst st) @
                       [assistant_message (returned_text (tc_name tc) (result_value res) args)]
                  else messages (fst st))
      in (Response msgs
            (case result_agent res of None \<Rightarrow> agent (fst st) | Some a \<Rightarrow> Some a)
            (dict_update (context_variables (fst st)) (result_context_variables res)),
          snd st @ [(tc_name tc, args)]))"

text \<open>
  The body of the loop. A name that is not in the function map gets the message of
  the mode and the loop goes on; in a mode with no such message the body falls
  through to the call, which fails on the lookup.
\<close>

definition handle_tool_call ::
  "string \<Rightarrow> agent_function dict \<Rightarrow> pydict \<Rightarrow> tool_call \<Rightarrow> dispatch \<Rightarrow> error + dispatch" where
  "handle_tool_call md fmap cv tc st =
     (if \<not> dict_has fmap (tc_name tc) \<and> tool_capable md
      then Inr (add_message (tool_message tc (not_found_text (tc_name tc))) st)
      else if \<not> dict_has fmap (tc_name tc) \<and> in_gemini md
      then Inr (add_message (assistant_message (not_found_text (tc_name tc))) st)
      else
        (case call_tool fmap cv tc of
           Inl e \<Rightarrow> Inl e
         | Inr (res, args) \<Rightarrow> Inr (record_result md tc res args st)))"

fun handle_tool_calls_loop ::
  "string \<Rightarrow> agent_function dict \<Rightarrow> pydict \<Rightarrow> tool_call list \<Rightarrow> dispatch \<Rightarrow> error + dispatch" where
  "handle_tool_calls_loop md fmap cv [] st = Inr st"
| "handle_tool_calls_loop md fmap cv (tc # tcs) st =
     (case handle_tool_call md fmap cv tc st of
        Inl e \<Rightarrow> Inl e
      | Inr st' \<Rightarrow> handle_tool_calls_loop md fmap cv tcs st')"

definition handle_tool_calls ::
  "swarm \<Rightarrow> tool_call list \<Rightarrow> agent_function list \<Rightarrow> pydict \<Rightarrow> error + dispatch" where
  "handle_tool_calls sw tool_calls fns cv =
     handle_tool_calls_loop (mode sw) (function_map fns) cv tool_calls (Response [] None [], [])"

section \<open>The store: lists and dictionaries with identity\<close>

text \<open>
  The two entry points copy the caller's message list and context variables and then
  mutate objects in place. To tell a copy from an alias, the mutable objects live in a
  store: a list object holds the addresses of message dictionaries, a dictionary
  object holds its pairs (with immutable values). An address is an index; a new object
  takes the next free one. A reference of a running program always points to an
  object: the default that \<open>get_list\<close> and \<open>get_dict\<close> give for an address outside
  the store is never read there.
\<close>

record store =
  lists :: "nat list list"
  dicts :: "pydict list"

definition get_list :: "store \<Rightarrow> nat \<Rightarrow> nat list" where
  "get_list s l = (if l < length (lists s) then lists s ! l else [])"

definition get_dict :: "store \<Rightarrow> nat \<Rightarrow> pydict" where
  "get_dict s a = (if a < length (dicts s) then dicts s ! a else [])"

definition new_dict :: "pydict \<Rightarrow> store \<Rightarrow> nat \<times> store" where
  "new_dict d s = (length (dicts s), s\<lparr>dicts := dicts s @ [d]\<rparr>)"

definition new_list :: "nat list \<Rightarrow> store \<Rightarrow> nat \<times> store" where
  "new_list xs s = (length (lists s), s\<lparr>lists := lists s @ [xs]\<rparr>)"

fun new_dicts :: "pydict list \<Rightarrow> store \<Rightarrow> nat list \<times> store" where
  "new_dicts [] s = ([], s)"
| "new_dicts (d # ds) s =
     (let one = new_dict d s; more = new_dicts ds (snd one)
      in (fst one # fst more, snd more))"

text \<open>The list of message dictionaries a list object stands for.\<close>

definition read_messages :: "store \<Rightarrow> nat \<Rightarrow> pydict list" where
  "read_messages s l = map (get_dict s) (get_list s l)"

text \<open>\<^verbatim>\<open>copy.deepcopy\<close> of a dictionary object and of a list of dictionaries.\<close>

definition deepcopy_dict :: "nat \<Rightarrow> store \<Rightarrow> nat \<times> store" where
  "deepcopy_dict a s = new_dict (get_dict s a) s"

definition deepcopy_list :: "nat \<Rightarrow> store \<Rightarrow> nat \<times> store" where
  "deepcopy_list l s =
     (let copies = new_dicts (read_messages s l) s
      in new_list (fst copies) (snd copies))"

text \<open>\<^verbatim>\<open>l.append(d)\<close> and \<^verbatim>\<open>l.extend(ds)\<close> with fresh dictionaries, \<^verbatim>\<open>c.update(u)\<close> and
  \<^verbatim>\<open>d[k] = v\<close> on the objects at the given addresses.\<close>

definition list_extend :: "nat \<Rightarrow> pydict list \<Rightarrow> store \<Rightarrow> store" where
  "list_extend l ds s =
     (let fresh = new_dicts ds s
      in (snd fresh)\<lparr>lists := (lists (snd fresh))[l := get_list (snd fresh) l @ fst fresh]\<rparr>)"

definition list_append :: "nat \<Rightarrow> pydict \<Rightarrow> store \<Rightarrow> store" where
  "list_append l d s = list_extend l [d] s"

definition dict_update_at :: "nat \<Rightarrow> pydict \<Rightarrow> store \<Rightarrow> store" where
  "dict_update_at c u s = s\<lparr>dicts := (dicts s)[c := dict_update (get_dict s c) u]\<rparr>"

definition dict_set_at :: "nat \<Rightarrow> string \<Rightarrow> pyval \<Rightarrow> store \<Rightarrow> store" where
  "dict_set_at a k v s = s\<lparr>dicts := (dicts s)[a := dict_set (get_dict s a) k v]\<rparr>"

section \<open>The turn loop: \<^verbatim>\<open>run\<close>\<close>

text \<open>
  Modelled from the spec: the message type of the client library
  (\<^verbatim>\<open>ChatCompletionMessage\<close>, re-exported by \<^verbatim>\<open>types.py\<close>, which is not among the
  sources). A message has a role, a content, a sender and an optional list of tool
  calls; \<^verbatim>\<open>json.loads(message.model_dump_json())\<close> is the dictionary of these fields,
  with the \<^verbatim>\<open>function_call\<close> field that \<^verbatim>\<open>run_and_stream\<close> also gives its messages.
\<close>

definition opt_str :: "string option \<Rightarrow> pyval" where
  "opt_str s = (case s of None \<Rightarrow> PNone | Some t \<Rightarrow> PStr t)"

definition dump_tool_call :: "tool_call \<Rightarrow> pyval" where
  "dump_tool_call tc =
     PDict [(''id'', PStr (tc_id tc)),
            (''function'', PDict [(''arguments'', PStr (tc_arguments tc)),
                                  (''name'', PStr (tc_name tc))]),
            (''type'', PStr (tc_type tc))]"

definition model_dump :: "message \<Rightarrow> pydict" where
  "model_dump m =
     [(''content'', opt_str (msg_content m)),
      (''role'', PStr (msg_role m)),
      (''function_call'', PNone),
      (''tool_calls'',
         (case msg_tool_calls m of None \<Rightarrow> PNone | Some tcs \<Rightarrow> PList (map dump_tool_call tcs))),
      (''sender'', opt_str (msg_sender m))]"

text \<open>The history entry of \<^verbatim>\<open>gemini\<close> mode: the dictionary printed with \<^verbatim>\<open>str\<close>, every
  single quote turned into a double quote and every \<^verbatim>\<open>None\<close> into \<^verbatim>\<open>null\<close>.\<close>

definition gemini_content :: "message \<Rightarrow> string" where
  "gemini_content m =
     replace ''None'' ''null'' (replace [squote] [dquote] (py_str (PDict (model_dump m))))"

definition gemini_entry :: "message \<Rightarrow> pydict" where
  "gemini_entry m = [(''role'', PStr (msg_role m)), (''content'', PStr (gemini_content m))]"

text \<open>\<^verbatim>\<open>max_turns\<close> is a number or \<^verbatim>\<open>float("inf")\<close>.\<close>

datatype turns = Infinite | Turns int

text \<open>What the generator of \<^verbatim>\<open>run_and_stream\<close> yields.\<close>

datatype event = Delim string | DeltaEvent delta "string option" | ResponseEvent response

text \<open>
  The state of a call: the store, the requests sent to the client, the tool calls
  made, the events yielded, and the local variables \<^verbatim>\<open>history\<close> and
  \<^verbatim>\<open>context_variables\<close> (addresses in the store) and \<^verbatim>\<open>active_agent\<close>. An \<^verbatim>\<open>Agent\<close>
  object is always true in a condition, so \<^verbatim>\<open>and active_agent\<close> and
  \<^verbatim>\<open>if partial_response.agent\<close> only test for \<^verbatim>\<open>None\<close>.
\<close>

record state =
  heap :: store
  sent :: "create_params list"
  executed :: "(string \<times> pydict) list"
  yielded :: "event list"
  history :: nat
  cvars :: nat
  active_agent :: agent

text \<open>The arguments of a call; the two caller-owned objects are given by address.\<close>

record run_args =
  arg_agent :: agent
  arg_messages :: nat
  arg_context_variables :: nat
  arg_model_override :: "string option"
  arg_model_config :: create_params
  arg_max_turns :: turns
  arg_execute_tools :: bool

datatype status = Continue | Break | Failed error

text \<open>The first four lines of both entry points.\<close>

definition enter :: "run_args \<Rightarrow> store \<Rightarrow> state \<times> nat" where
  "enter ar s =
     (let c = deepcopy_dict (arg_context_variables ar) s;
          h = deepcopy_list (arg_messages ar) (snd c)
      in (\<lparr>heap = snd h, sent = [], executed = [], yielded = [],
           history = fst h, cvars = fst c, active_agent = arg_agent ar\<rparr>,
          length (get_list (snd h) (arg_messages ar))))"

text \<open>\<^verbatim>\<open>len(history) - init_len < max_turns\<close>.\<close>

definition turns_left :: "turns \<Rightarrow> nat \<Rightarrow> state \<Rightarrow> bool" where
  "turns_left mt init_len st =
     (case mt of
        Infinite \<Rightarrow> True
      | Turns n \<Rightarrow> int (length (get_list (heap st) (history st))) - int init_len < n)"

text \<open>The last three statements of a turn: the partial response is folded into the
  history, the context variables and the active agent.\<close>

definition apply_partial_response :: "dispatch \<Rightarrow> state \<Rightarrow> state" where
  "apply_partial_response d st =
     st\<lparr>heap := dict_update_at (cvars st) (context_variables (fst d))
                  (list_extend (history st) (messages (fst d)) (heap st)),
        executed := executed st @ snd d,
        active_agent := (case agent (fst d) of None \<Rightarrow> active_agent st | Some a \<Rightarrow> a)\<rparr>"

definition no_tool_calls :: "tool_call list option \<Rightarrow> bool" where
  "no_tool_calls tcs = (case tcs of None \<Rightarrow> True | Some xs \<Rightarrow> xs = [])"

definition the_tool_calls :: "tool_call list option \<Rightarrow> tool_call list" where
  "the_tool_calls tcs = (case tcs of None \<Rightarrow> [] | Some xs \<Rightarrow> xs)"

text \<open>Dispatch of the tool calls of a turn, shared by the two loops.\<close>

definition dispatch_turn :: "swarm \<Rightarrow> run_args \<Rightarrow> tool_call list option \<Rightarrow> state \<Rightarrow> status \<times> state" where
  "dispatch_turn sw ar tcs st =
     (if no_tool_calls tcs \<or> \<not> arg_execute_tools ar then (Break, st)
      else
        (case handle_tool_calls sw (the_tool_calls tcs) (agent_functions (active_agent st))
                (get_dict (heap st) (cvars st)) of
           Inl e \<Rightarrow> (Failed e, st)
         | Inr d \<Rightarrow> (Continue, apply_partial_response d st)))"

text \<open>The history entry of the blocking loop for the assistant message.\<close>

definition append_message :: "swarm \<Rightarrow> message \<Rightarrow> state \<Rightarrow> state" where
  "append_message sw m st =
     (if mode sw = ''openai'' \<or> mode sw = ''ollama''
      then st\<lparr>heap := list_append (history st) (model_dump m) (heap st)\<rparr>
      else if in_gemini (mode sw)
      then st\<lparr>heap := list_append (history st) (gemini_entry m) (heap st)\<rparr>
      else st)"

text \<open>One turn of \<^verbatim>\<open>run\<close>: the body of its \<^verbatim>\<open>while\<close> loop.\<close>

definition run_turn :: "swarm \<Rightarrow> run_args \<Rightarrow> state \<Rightarrow> status \<times> state" where
  "run_turn sw ar st =
     (let out = get_chat_completion sw (sent st) (active_agent st)
                  (read_messages (heap st) (history st)) (get_dict (heap st) (cvars st))
                  (arg_model_override ar) False (arg_model_config ar);
          st1 = st\<lparr>sent := snd out\<rparr>
      in
        case fst out of
          Inl e \<Rightarrow> (Failed e, st1)
        | Inr None \<Rightarrow> (Failed AttributeError, st1)
        | Inr (Some (ChunkStream chunks)) \<Rightarrow> (Failed AttributeError, st1)
        | Inr (Some (ChatCompletion choices)) \<Rightarrow>
            (case choices of
               [] \<Rightarrow> (Failed IndexError, st1)
             | m0 # rest \<Rightarrow>
                 (let m = Message (msg_content m0) (msg_role m0) (msg_tool_calls m0)
                            (Some (agent_name (active_agent st)))
                  in dispatch_turn sw ar (msg_tool_calls m) (append_message sw m st1))))"

text \<open>
  The \<^verbatim>\<open>while\<close> loop, for either body. The loop of the source need not end
  (\<^verbatim>\<open>max_turns\<close> is infinite by default), so the model counts turns down from a fuel:
  \<open>None\<close> says that the fuel did not suffice.
\<close>

fun turn_loop ::
  "nat \<Rightarrow> (state \<Rightarrow> status \<times> state) \<Rightarrow> turns \<Rightarrow> nat \<Rightarrow> state \<Rightarrow> (error option \<times> state) option" where
  "turn_loop 0 body mt init_len st =
     (if turns_left mt init_len st then None else Some (None, st))"
| "turn_loop (Suc n) body mt init_len st =
     (if turns_left mt init_len st then
        (case body st of
           (Failed e, st') \<Rightarrow> Some (Some e, st')
         | (Break, st') \<Rightarrow> Some (None, st')
         | (Continue, st') \<Rightarrow> turn_loop n body mt init_len st')
      else Some (None, st))"

text \<open>The post-processing of the last message, taken when the mode occurs in
  \<^verbatim>\<open>"gemini"\<close>.\<close>

definition unwrap_content :: "pydict \<Rightarrow> error + string" where
  "unwrap_content entry =
     (case dict_get entry ''content'' of
        None \<Rightarrow> Inl (KeyError ''content'')
      | Some c \<Rightarrow>
          (case c of
             PStr wrapped \<Rightarrow>
               (case json_loads wrapped of
                  Inl e \<Rightarrow> Inl e
                | Inr decoded \<Rightarrow>
                    (case decoded of
                       PDict d \<Rightarrow>
                         (case dict_get d ''content'' of
                            None \<Rightarrow> Inl (KeyError ''content'')
                          | Some lc \<Rightarrow>
                              (case lc of
                                 PStr last_content \<Rightarrow> Inr (strip last_content)
                               | _ \<Rightarrow> Inl AttributeError))
                     | _ \<Rightarrow> Inl (TypeError ''the decoded value has no key content'')))
           | _ \<Rightarrow> Inl (TypeError ''the JSON object must be str'')))"

definition postprocess :: "swarm \<Rightarrow> nat \<Rightarrow> state \<Rightarrow> error option \<times> state" where
  "postprocess sw init_len st =
     (if in_gemini (mode sw) then
        (case rev (drop init_len (get_list (heap st) (history st))) of
           [] \<Rightarrow> (Some IndexError, st)
         | a # earlier \<Rightarrow>
             (case unwrap_content (get_dict (heap st) a) of
                Inl e \<Rightarrow> (Some e, st)
              | Inr v \<Rightarrow> (None, st\<lparr>heap := dict_set_at a ''content'' (PStr v) (heap st)\<rparr>)))
      else (None, st))"

definition response_of :: "nat \<Rightarrow> state \<Rightarrow> response" where
  "response_of init_len st =
     Response (drop init_len (read_messages (heap st) (history st)))
              (Some (active_agent st))
              (get_dict (heap st) (cvars st))"

text \<open>\<^verbatim>\<open>run\<close> with \<^verbatim>\<open>stream=False\<close>: the outcome and the final state, or \<open>None\<close> when the
  fuel does not suffice.\<close>

definition run :: "nat \<Rightarrow> swarm \<Rightarrow> run_args \<Rightarrow> store \<Rightarrow> ((error + response) \<times> state) option" where
  "run fuel sw ar s =
     (let start = enter ar s in
      case turn_loop fuel (run_turn sw ar) (arg_max_turns ar) (snd start) (fst start) of
        None \<Rightarrow> None
      | Some looped \<Rightarrow>
          (case fst looped of
             Some e \<Rightarrow> Some (Inl e, snd looped)
           | None \<Rightarrow>
               (let post = postprocess sw (snd start) (snd looped) in
                case fst post of
                  Some e \<Rightarrow> Some (Inl e, snd post)
                | None \<Rightarrow> Some (Inr (response_of (snd start) (snd post)), snd post))))"

section \<open>The streaming loop: \<^verbatim>\<open>run_and_stream\<close>\<close>

text \<open>
  The message under construction in a streamed turn: content, sender, role, and the
  tool calls by index, in the order in which the indices arrived.
\<close>

datatype stream_message =
  StreamMessage (sm_content: string) (sm_sender: string) (sm_role: string)
                (sm_tool_calls: "(nat \<times> tool_call) list")

definition or_empty :: "string option \<Rightarrow> string" where
  "or_empty s = (case s of None \<Rightarrow> [] | Some t \<Rightarrow> t)"

text \<open>
  Modelled from the spec: \<^verbatim>\<open>merge_chunk\<close> of \<^verbatim>\<open>util.py\<close>, which is not among the
  sources. A text field that is present in the delta is concatenated onto the field of
  the message; a tool-call fragment goes to the entry of its index, which starts with
  empty id, name, arguments and type when the index is new.
\<close>

definition merge_tool_call :: "tool_call_delta \<Rightarrow> (nat \<times> tool_call) list \<Rightarrow> (nat \<times> tool_call) list" where
  "merge_tool_call f tcs =
     (let cur = (case map_of tcs (tcd_index f) of
                   None \<Rightarrow> ToolCall [] [] [] []
                 | Some tc \<Rightarrow> tc)
      in AList.update (tcd_index f)
           (ToolCall (tc_id cur @ or_empty (tcd_id f))
                     (tc_name cur @ or_empty (tcd_name f))
                     (tc_arguments cur @ or_empty (tcd_arguments f))
                     (tc_type cur @ or_empty (tcd_type f)))
           tcs)"

definition merge_chunk :: "stream_message \<Rightarrow> delta \<Rightarrow> stream_message" where
  "merge_chunk m d =
     StreamMessage (sm_content m @ or_empty (delta_content d)) (sm_sender m) (sm_role m)
       (fold merge_tool_call
          (case delta_tool_calls d of None \<Rightarrow> [] | Some fs \<Rightarrow> fs)
          (sm_tool_calls m))"

text \<open>
  The \<^verbatim>\<open>for\<close> loop over the chunks: each delta is yielded, tagged with the name of
  the active agent when its role is \<^verbatim>\<open>assistant\<close>, and merged into the message
  without its role and sender. A chunk without choices fails the indexing.
\<close>

fun consume ::
  "string \<Rightarrow> delta list list \<Rightarrow> stream_message \<Rightarrow> event list
     \<Rightarrow> error option \<times> stream_message \<times> event list" where
  "consume nm [] m evs = (None, m, evs)"
| "consume nm (chunk # chunks) m evs =
     (case chunk of
        [] \<Rightarrow> (Some IndexError, m, evs)
      | d # others \<Rightarrow>
          consume nm chunks (merge_chunk m d)
            (evs @ [DeltaEvent d (if delta_role d = Some ''assistant'' then Some nm else None)]))"

definition stream_tool_call_dict :: "tool_call \<Rightarrow> pyval" where
  "stream_tool_call_dict tc =
     PDict [(''function'', PDict [(''arguments'', PStr (tc_arguments tc)),
                                  (''name'', PStr (tc_name tc))]),
            (''id'', PStr (tc_id tc)),
            (''type'', PStr (tc_type tc))]"

text \<open>The finished message as the dictionary that is appended to the history: the
  tool calls become a list, and an empty list becomes \<^verbatim>\<open>None\<close>.\<close>

definition stream_message_dict :: "stream_message \<Rightarrow> pydict" where
  "stream_message_dict m =
     [(''content'', PStr (sm_content m)),
      (''sender'', PStr (sm_sender m)),
      (''role'', PStr (sm_role m)),
      (''function_call'', PNone),
      (''tool_calls'',
         (if sm_tool_calls m = [] then PNone
          else PList (map (\<lambda>e. stream_tool_call_dict (snd e)) (sm_tool_calls m))))]"

text \<open>
  One turn of \<^verbatim>\<open>run_and_stream\<close>. The fresh message takes its sender from the
  parameter \<^verbatim>\<open>agent\<close>; the completion is asked for the active agent. The tool
  call objects that the turn builds from the merged message hold the same four texts
  as its entries; their construction is taken to succeed.
\<close>

definition stream_turn :: "swarm \<Rightarrow> run_args \<Rightarrow> state \<Rightarrow> status \<times> state" where
  "stream_turn sw ar st =
     (let m0 = StreamMessage [] (agent_name (arg_agent ar)) ''assistant'' [];
          out = get_chat_completion sw (sent st) (active_agent st)
                  (read_messages (heap st) (history st)) (get_dict (heap st) (cvars st))
                  (arg_model_override ar) True (arg_model_config ar);
          st1 = st\<lparr>sent := snd out\<rparr>;
          st2 = st1\<lparr>yielded := yielded st1 @ [Delim ''start'']\<rparr>
      in
        case fst out of
          Inl e \<Rightarrow> (Failed e, st1)
        | Inr None \<Rightarrow> (Failed (TypeError ''NoneType object is not iterable''), st2)
        | Inr (Some (ChatCompletion choices)) \<Rightarrow> (Failed AttributeError, st2)
        | Inr (Some (ChunkStream chunks)) \<Rightarrow>
            (let eaten = consume (agent_name (active_agent st)) chunks m0 (yielded st2);
                 m = fst (snd eaten);
                 st3 = st2\<lparr>yielded := snd (snd eaten)\<rparr>
             in
               case fst eaten of
                 Some e \<Rightarrow> (Failed e, st3)
               | None \<Rightarrow>
                   (let st4 = st3\<lparr>yielded := yielded st3 @ [Delim ''end''],
                                 heap := list_append (history st3) (stream_message_dict m) (heap st3)\<rparr>
                    in dispatch_turn sw ar
                         (if sm_tool_calls m = [] then None else Some (map snd (sm_tool_calls m)))
                         st4)))"

text \<open>\<^verbatim>\<open>run_and_stream\<close>, iterated to its end: the events it yields, the last of which
  holds the response, and the final state.\<close>

definition run_and_stream ::
  "nat \<Rightarrow> swarm \<Rightarrow> run_args \<Rightarrow> store \<Rightarrow> ((error + event list) \<times> state) option" where
  "run_and_stream fuel sw ar s =
     (let start = enter ar s in
      case turn_loop fuel (stream_turn sw ar) (arg_max_turns ar) (snd start) (fst start) of
        None \<Rightarrow> None
      | Some looped \<Rightarrow>
          (case fst looped of
             Some e \<Rightarrow> Some (Inl e, snd looped)
           | None \<Rightarrow>
               Some (Inr (yielded (snd looped) @
                          [ResponseEvent (response_of (snd start) (snd looped))]),
                     snd looped)))"

section \<open>Example runs\<close>



definition ex_agent_b :: agent where
  "ex_agent_b = Agent ''B'' (Some ''gpt-4o'') (Static ''You are agent B.'') [] PNone True"

definition ex_transfer :: agent_function where
  "ex_transfer =
     AgentFunction ''transfer_to_b'' [] (Tool ''transfer_to_b'' [] [] [])
       (\<lambda>args. Inr (RAgent ex_agent_b))"

definition ex_agent_a :: agent where
  "ex_agent_a = Agent ''A'' (Some ''gpt-4o'') (Static ''You are agent A.'') [ex_transfer] PNone True"

definition transfer_call :: tool_call where
  "transfer_call = ToolCall ''c1'' ''transfer_to_b'' ''{}'' ''function''"

definition handoff_client :: client where
  "handoff_client log req =
     (if log = []
      then Inr (ChatCompletion [Message None ''assistant'' (Some [transfer_call]) None])
      else Inr (ChatCompletion [Message (Some ''hello'') ''assistant'' None None]))"

definition handoff_stream_client :: client where
  "handoff_stream_client log req =
     (if log = []
      then Inr (ChunkStream
             [[Delta (Some ''assistant'') None
                 (Some [ToolCallDelta 0 (Some ''c1'') (Some ''transfer_to_b'') (Some ''{'')
                          (Some ''function'')])],
              [Delta None None (Some [ToolCallDelta 0 None None (Some ''}'') None])]])
      else Inr (ChunkStream
             [[Delta (Some ''assistant'') (Some ''hel'') None],
              [Delta None (Some ''lo'') None]]))"

definition apostrophe_client :: client where
  "apostrophe_client log req =
     Inr (ChatCompletion [Message (Some (''it'' @ [squote] @ ''s'')) ''assistant'' None None])"

definition plain_client :: client where
  "plain_client log req =
     Inr (ChatCompletion [Message (Some ''hello'') ''assistant'' None None])"

definition ex_store :: store where
  "ex_store =
     \<lparr>lists = [[1]],
      dicts = [[(''user'', PStr ''u1'')],
               [(''role'', PStr ''user''), (''content'', PStr ''hi'')]]\<rparr>"

definition ex_args :: "agent \<Rightarrow> turns \<Rightarrow> run_args" where
  "ex_args a mt =
     \<lparr>arg_agent = a, arg_messages = 0, arg_context_variables = 0,
      arg_model_override = None, arg_model_config = [], arg_max_turns = mt,
      arg_execute_tools = True\<rparr>"

section \<open>The frame of a call\<close>

text \<open>
  \<open>unchanged s s'\<close>: every object of the store \<open>s\<close> is in \<open>s'\<close>, at its address,
  with the contents it had. \<open>valid_inputs\<close>: the caller's references point to objects
  of the store. \<open>owned s st\<close>: the objects that the local variables \<^verbatim>\<open>history\<close> and
  \<^verbatim>\<open>context_variables\<close> refer to, and the messages in the history, were all
  made after \<open>s\<close>.
\<close>

definition unchanged :: "store \<Rightarrow> store \<Rightarrow> bool" where
  "unchanged s s' =
     (take (length (lists s)) (lists s') = lists s \<and> take (length (dicts s)) (dicts s') = dicts s)"

definition valid_inputs :: "run_args \<Rightarrow> store \<Rightarrow> bool" where
  "valid_inputs ar s =
     (arg_messages ar < length (lists s) \<and> arg_context_variables ar < length (dicts s) \<and>
      list_all (\<lambda>a. a < length (dicts s)) (get_list s (arg_messages ar)))"

definition owned :: "store \<Rightarrow> state \<Rightarrow> bool" where
  "owned s st =
     (unchanged s (heap st) \<and> length (lists s) \<le> history st \<and> length (dicts s) \<le> cvars st \<and>
      list_all (\<lambda>a. length (dicts s) \<le> a) (get_list (heap st) (history st)))"






text \<open>What is read off a response in the examples: the senders of its messages, and
  the response that ends a list of events.\<close>

definition senders :: "response \<Rightarrow> pyval option list" where
  "senders r = map (\<lambda>m. dict_get m ''sender'') (messages r)"

definition final_response :: "event list \<Rightarrow> response option" where
  "final_response evs =
     (case rev evs of
        ResponseEvent r # earlier \<Rightarrow> Some r
      | _ \<Rightarrow> None)"

text \<open>\<open>live st\<close>: the local \<^verbatim>\<open>history\<close> refers to a list object of the store.\<close>

definition live :: "state \<Rightarrow> bool" where
  "live st = (history st < length (lists (heap st)))"

section \<open>Properties of the engine\<close>

subsection \<open>The result normalizer\<close>

text \<open>
  What \<^verbatim>\<open>handle_function_result\<close> does in each case: a \<^verbatim>\<open>Result\<close> is returned as it
  is; an \<^verbatim>\<open>Agent\<close> is wrapped, with the JSON object \<^verbatim>\<open>{"assistant": name}\<close> as value;
  any other value whose \<^verbatim>\<open>str\<close> rendering succeeds becomes the value of a fresh
  \<^verbatim>\<open>Result\<close>; the function fails only when that rendering fails, and with the
  \<^verbatim>\<open>TypeError\<close> that names the value when the value can still be formatted into the
  message.
\<close>

lemma handle_function_result_cases:
  "handle_function_result (RResult r) = Inr r \<and>
   handle_function_result (RAgent a) =
     Inr (Result (json_dumps (PDict [(''assistant'', PStr (agent_name a))])) (Some a) []) \<and>
   (\<forall>rendered. s = Inr rendered \<longrightarrow>
      handle_function_result (ROther s f) = Inr (Result rendered None [])) \<and>
   (\<forall>err. handle_function_result (ROther s f) = Inl err \<longrightarrow> (\<exists>e. s = Inl e)) \<and>
   (\<forall>e shown. s = Inl e \<and> f = Inr shown \<longrightarrow>
      (\<exists>before after.
         handle_function_result (ROther s f) = Inl (TypeError (before @ shown @ after))))"
proof (intro conjI allI impI)
  show "handle_function_result (RResult r) = Inr r"
    by simp
  show "handle_function_result (RAgent a) =
      Inr (Result (json_dumps (PDict [(''assistant'', PStr (agent_name a))])) (Some a) [])"
    by simp
next
  fix rendered
  assume "s = Inr rendered"
  then show "handle_function_result (ROther s f) = Inr (Result rendered None [])"
    by simp
next
  fix err
  assume "handle_function_result (ROther s f) = Inl err"
  then show "\<exists>e. s = Inl e"
    by (cases s) auto
next
  fix e shown
  assume "s = Inl e \<and> f = Inr shown"
  then have "handle_function_result (ROther s f) =
      Inl (TypeError (''Failed to cast response to string: '' @ shown @
        (''. Make sure agent functions return a string or Result object. Error: '' @ error_text e)))"
    by (simp add: cast_error_message_def)
  then show "\<exists>before after.
      handle_function_result (ROther s f) = Inl (TypeError (before @ shown @ after))"
    by blast
qed

text \<open>
  Claim C8, at a failing input: a tool function returns an object whose \<^verbatim>\<open>__str__\<close>
  raises, and which is formatted by the default \<^verbatim>\<open>__format__\<close>, that is by
  \<^verbatim>\<open>__str__\<close>. The rendering fails, and the handler, while it builds the message of the
  \<^verbatim>\<open>TypeError\<close> with an f-string over the same object, raises the exception of
  \<^verbatim>\<open>__str__\<close> once more: no \<^verbatim>\<open>TypeError\<close> naming the value is raised.
\<close>

theorem handle_function_result_unprintable:
  "handle_function_result ex_unprintable = Inl (Raised ''boom'') \<and>
   (\<forall>m. handle_function_result ex_unprintable \<noteq> Inl (TypeError m))"
  by (simp add: ex_unprintable_def)

subsection \<open>Construction\<close>

text \<open>
  An unrecognized mode is accepted by \<^verbatim>\<open>__init__\<close>: the chain of comparisons has no
  final \<^verbatim>\<open>else\<close>, and the engine is built without a client.
\<close>

theorem init_unrecognized_mode_accepted:
  "''foo'' \<noteq> ''openai'' \<and> ''foo'' \<noteq> ''gemini'' \<and> ''foo'' \<noteq> ''ollama'' \<and>
   init (\<lambda>k u. Inl (Raised ''offline'')) None ''foo'' [] = Inr \<lparr>mode = ''foo'', client = None\<rparr>"
  by (simp add: init_def)

text \<open>The engine of an unrecognized mode fails later, in its first turn: no completion
  is asked for, and the loop reads the choices of \<^verbatim>\<open>None\<close>.\<close>

lemma run_unrecognized_mode_fails_later:
  "map_option (\<lambda>r. map_sum id messages (fst r))
     (run 1 \<lparr>mode = ''foo'', client = None\<rparr> (ex_args ex_agent_b Infinite) ex_store) =
   Some (Inl AttributeError)"
  by code_simp

text \<open>
  Claim C2, as amended. Constructing the engine with an empty mode raises the
  configuration error at construction time, whatever client and key are passed.
\<close>

theorem init_empty_mode:
  "init OpenAI client0 [] GEMINI_API_KEY =
     Inl (ValueError ''Please set mode (e.g., openai, gemini, ollama).'')"
  by (simp add: init_def)

subsection \<open>Dictionaries\<close>

lemma map_of_dict_set: "map_of (dict_set d k v) = (map_of d)(k \<mapsto> v)"
  by (simp add: dict_set_def update_conv')

lemma map_of_dict_update:
  "map_of (dict_update d u) k = (case map_of (rev u) k of None \<Rightarrow> map_of d k | Some v \<Rightarrow> Some v)"
proof (induction u arbitrary: d)
  case Nil
  then show ?case by (simp add: dict_update_def)
next
  case (Cons kv u)
  have "dict_update d (kv # u) = dict_update (dict_set d (fst kv) (snd kv)) u"
    by (simp add: dict_update_def)
  then show ?case
    by (simp add: Cons.IH map_of_dict_set map_add_def split: option.splits)
qed


lemma dict_get_dict_set:
  "dict_get (dict_set d k v) k' = (if k' = k then Some v else dict_get d k')"
  by (simp add: dict_get_def map_of_dict_set)

lemma dict_get_dict_update_other:
  assumes "\<not> dict_has u k"
  shows "dict_get (dict_update d u) k = dict_get d k"
proof -
  from assms have "map_of (rev u) k = None"
    by (simp add: dict_has_def map_of_eq_None_iff)
  then show ?thesis
    by (simp add: dict_get_def map_of_dict_update)
qed

subsection \<open>The tool descriptors of a request\<close>

lemma dict_has_pop: "\<not> dict_has (dict_pop d k) k"
  by (simp add: dict_has_def dict_pop_def delete_conv')

lemma hide_context_variables_hidden:
  assumes "distinct (tool_required t)"
  shows "\<not> dict_has (tool_properties (hide_context_variables t)) CTX_VARS_NAME \<and>
         CTX_VARS_NAME \<notin> set (tool_required (hide_context_variables t))"
  using assms by (simp add: hide_context_variables_def dict_has_pop)

lemma ex_agent_tools:
  "tools_of ex_agent =
     [Tool ''get_weather'' ''Weather of a place.''
        [(''location'', PDict [(''type'', PStr ''string'')])] [''location'']]"
  by (simp add: tools_of_def ex_agent_def ex_get_weather_def ex_descriptor_def
      hide_context_variables_def dict_pop_def CTX_VARS_NAME_def)

text \<open>
  The \<^verbatim>\<open>tools\<close> entry of the request, when the extra options of the call do not
  replace it: \<^verbatim>\<open>None\<close> for an agent without functions, the descriptors otherwise.
\<close>

lemma build_create_params_tools:
  assumes "\<not> dict_has model_config ''tools''"
  shows "dict_get (build_create_params a msgs model_override stream model_config) ''tools'' =
           Some (if tools_of a = [] then ParNone else ParTools (tools_of a))"
  using dict_get_dict_update_other [OF assms]
  by (simp add: build_create_params_def dict_get_def)

text \<open>
  The requests that a call sends are the built request, the built request with
  \<^verbatim>\<open>parallel_tool_calls\<close>, and the retry with \<^verbatim>\<open>tools\<close> and \<^verbatim>\<open>tool_choice\<close> set to
  \<^verbatim>\<open>None\<close>.
\<close>

lemma get_chat_completion_sent:
  assumes "req \<in> set (drop (length log)
      (snd (get_chat_completion sw log a hist cv model_override stream model_config)))"
  shows "\<exists>instr cp cp1.
      cp = build_create_params a
             ([(''role'', PStr ''system''), (''content'', PStr instr)] # hist)
             model_override stream model_config \<and>
      cp1 = (if tools_of a \<noteq> []
             then dict_set cp ''parallel_tool_calls'' (ParBool (agent_parallel_tool_calls a))
             else cp) \<and>
      (req = cp \<or> req = cp1 \<or>
       req = dict_set (dict_set cp1 ''tools'' ParNone) ''tool_choice'' ParNone)"
  using assms
  by (auto simp: get_chat_completion_def call_client_def Let_def
      split: sum.splits if_splits option.splits)

lemma get_chat_completion_sent_tools:
  assumes "\<not> dict_has model_config ''tools''"
    and "req \<in> set (drop (length log)
      (snd (get_chat_completion sw log a hist cv model_override stream model_config)))"
  shows "dict_get req ''tools'' = Some ParNone \<or>
         dict_get req ''tools'' = Some (ParTools (tools_of a))"
proof -
  from get_chat_completion_sent [OF assms(2)] obtain instr cp cp1 where
    cp: "cp = build_create_params a
           ([(''role'', PStr ''system''), (''content'', PStr instr)] # hist)
           model_override stream model_config" and
    cp1: "cp1 = (if tools_of a \<noteq> []
             then dict_set cp ''parallel_tool_calls'' (ParBool (agent_parallel_tool_calls a))
             else cp)" and
    req: "req = cp \<or> req = cp1 \<or>
       req = dict_set (dict_set cp1 ''tools'' ParNone) ''tool_choice'' ParNone"
    by blast
  have t: "dict_get cp ''tools'' =
      Some (if tools_of a = [] then ParNone else ParTools (tools_of a))"
    unfolding cp by (rule build_create_params_tools [OF assms(1)])
  then have t1: "dict_get cp1 ''tools'' =
      Some (if tools_of a = [] then ParNone else ParTools (tools_of a))"
    by (simp add: cp1 dict_get_dict_set)
  have "dict_get (dict_set (dict_set cp1 ''tools'' ParNone) ''tool_choice'' ParNone) ''tools'' =
      Some ParNone"
    by (simp add: dict_get_dict_set)
  with req t t1 show ?thesis
    by (auto split: if_splits)
qed

text \<open>
  In a known mode, with a client, instructions and a model, a request is sent, and the
  first one carries the descriptors.
\<close>

lemma get_chat_completion_first_request:
  assumes "tool_capable (mode sw) \<or> mode sw = ''gemini''" and "client sw = Some c"
    and "resolve_instructions a cv = Inr instr"
    and "truthy (agent_model a) \<or> truthy model_override"
    and "\<not> dict_has model_config ''tools''"
  shows "\<exists>req rest.
      drop (length log)
        (snd (get_chat_completion sw log a hist cv model_override stream model_config)) =
        req # rest \<and>
      dict_get req ''tools'' =
        Some (if tools_of a = [] then ParNone else ParTools (tools_of a))"
  using assms(1-4) build_create_params_tools [OF assms(5)]
  by (auto simp: get_chat_completion_def call_client_def Let_def tool_capable_def
      dict_get_dict_set split: sum.splits)

lemma ex_first_request_tools:
  "dict_get (hd (snd (get_chat_completion \<lparr>mode = ''openai'', client = Some failing_client\<rparr>
                        [] ex_agent [] [] None False []))) ''tools'' =
     Some (ParTools [Tool ''get_weather'' ''Weather of a place.''
                       [(''location'', PDict [(''type'', PStr ''string'')])] [''location'']])"
  by (simp add: get_chat_completion_def resolve_instructions_def ex_agent_def truthy_def
      build_create_params_def call_client_def failing_client_def
      dict_update_def dict_set_def dict_get_def Let_def ex_agent_tools [unfolded ex_agent_def])

lemma ex_sent_two:
  "length (snd (get_chat_completion \<lparr>mode = ''openai'', client = Some failing_client\<rparr>
                  [] ex_agent [] [] None False [])) = 2"
  by (simp add: get_chat_completion_def resolve_instructions_def ex_agent_def truthy_def
      call_client_def failing_client_def Let_def)

text \<open>
  Claim C7. Every request that \<^verbatim>\<open>get_chat_completion\<close> sends to the client and that
  carries tool descriptors carries one descriptor for each function of the agent, in
  order, with the hidden parameter \<^verbatim>\<open>context_variables\<close> taken out: no descriptor of the
  request holds it among its properties or in its required list. The required list of
  a descriptor names the parameters of a Python function, which are pairwise distinct,
  and the extra options of the call are taken not to replace the \<^verbatim>\<open>tools\<close> entry.
\<close>

theorem request_tools_hide_context_variables:
  assumes "\<forall>f \<in> set (agent_functions a). distinct (tool_required (fn_to_json f))"
    and "\<not> dict_has model_config ''tools''"
    and "req \<in> set (drop (length log)
           (snd (get_chat_completion sw log a hist cv model_override stream model_config)))"
    and "dict_get req ''tools'' = Some (ParTools ts)"
  shows "ts = map (\<lambda>f. hide_context_variables (fn_to_json f)) (agent_functions a) \<and>
         (\<forall>t \<in> set ts. \<not> dict_has (tool_properties t) CTX_VARS_NAME \<and>
                         CTX_VARS_NAME \<notin> set (tool_required t))"
proof -
  from get_chat_completion_sent_tools [OF assms(2,3)] assms(4) have ts: "ts = tools_of a"
    by auto
  have "\<not> dict_has (tool_properties t) CTX_VARS_NAME \<and> CTX_VARS_NAME \<notin> set (tool_required t)"
    if "t \<in> set ts" for t
  proof -
    from that ts obtain f where f: "f \<in> set (agent_functions a)"
      and t: "t = hide_context_variables (fn_to_json f)"
      by (auto simp: tools_of_def)
    from assms(1) f have "distinct (tool_required (fn_to_json f))"
      by blast
    then show ?thesis
      unfolding t by (rule hide_context_variables_hidden)
  qed
  with ts show ?thesis
    by (simp add: tools_of_def)
qed

theorem request_tools_hide_context_variables_witness:
  "dict_has (tool_properties (fn_to_json ex_get_weather)) CTX_VARS_NAME \<and>
   CTX_VARS_NAME \<in> set (tool_required (fn_to_json ex_get_weather)) \<and>
   (\<exists>req ts.
      req = hd (snd (get_chat_completion \<lparr>mode = ''openai'', client = Some failing_client\<rparr>
                       [] ex_agent [] [] None False [])) \<and>
      dict_get req ''tools'' = Some (ParTools ts) \<and>
      ts = [Tool ''get_weather'' ''Weather of a place.''
              [(''location'', PDict [(''type'', PStr ''string'')])] [''location'']] \<and>
      \<not> dict_has (tool_properties (hd ts)) CTX_VARS_NAME \<and>
      CTX_VARS_NAME \<notin> set (tool_required (hd ts)))"
proof -
  let ?sent = "snd (get_chat_completion \<lparr>mode = ''openai'', client = Some failing_client\<rparr>
      [] ex_agent [] [] None False [])"
  let ?ts = "[Tool ''get_weather'' ''Weather of a place.''
      [(''location'', PDict [(''type'', PStr ''string'')])] [''location'']]"
  have declared: "dict_has (tool_properties (fn_to_json ex_get_weather)) CTX_VARS_NAME \<and>
      CTX_VARS_NAME \<in> set (tool_required (fn_to_json ex_get_weather))"
    by (simp add: ex_descriptor_def ex_get_weather_def CTX_VARS_NAME_def dict_has_def)
  have d: "\<forall>f \<in> set (agent_functions ex_agent). distinct (tool_required (fn_to_json f))"
    by (simp add: ex_agent_def ex_get_weather_def ex_descriptor_def)
  have none: "\<not> dict_has ([] :: create_params) ''tools''"
    by (simp add: dict_has_def)
  from ex_sent_two have "?sent \<noteq> []"
    by auto
  then have mem: "hd ?sent \<in> set (drop (length ([] :: create_params list)) ?sent)"
    by simp
  have "\<forall>t \<in> set ?ts. \<not> dict_has (tool_properties t) CTX_VARS_NAME \<and>
      CTX_VARS_NAME \<notin> set (tool_required t)"
    using request_tools_hide_context_variables [OF d none mem ex_first_request_tools]
    by (rule conjunct2)
  then have "\<not> dict_has (tool_properties (hd ?ts)) CTX_VARS_NAME \<and>
      CTX_VARS_NAME \<notin> set (tool_required (hd ?ts))"
    by simp
  with declared ex_first_request_tools show ?thesis
    by simp
qed

subsection \<open>The completion request and its retry\<close>

text \<open>The request is sent with the descriptors above, unless the extra options replace them.\<close>

lemma create_params_tools:
  "dict_get (build_create_params a msgs model_override stream []) ''tools'' =
     Some (if tools_of a = [] then ParNone else ParTools (tools_of a))"
  by (simp add: build_create_params_def dict_update_def dict_get_def)

text \<open>In \<^verbatim>\<open>gemini\<close> mode a failure of the client is the configuration error, after one request.\<close>

lemma get_chat_completion_gemini_no_retry:
  assumes "mode sw = ''gemini''" and "client sw = Some c"
    and "resolve_instructions a cv = Inr instr"
    and "truthy (agent_model a) \<or> truthy model_override"
    and "cp = build_create_params a
           ([(''role'', PStr ''system''), (''content'', PStr instr)] # hist)
           model_override stream model_config"
    and "c log cp = Inl e"
  shows "get_chat_completion sw log a hist cv model_override stream model_config =
           (Inl config_error, log @ [cp])"
  using assms by (auto simp: get_chat_completion_def call_client_def Let_def)

text \<open>
  In the modes \<^verbatim>\<open>openai\<close> and \<^verbatim>\<open>ollama\<close> a failure of the first request is followed
  by exactly one more request, with \<^verbatim>\<open>tools\<close> and \<^verbatim>\<open>tool_choice\<close> set to \<^verbatim>\<open>None\<close>, and
  the outcome of that request is the outcome of the call.
\<close>

lemma get_chat_completion_retry_once:
  assumes "mode sw = ''openai'' \<or> mode sw = ''ollama''" and "client sw = Some c"
    and "resolve_instructions a cv = Inr instr"
    and "truthy (agent_model a) \<or> truthy model_override"
    and "cp = build_create_params a
           ([(''role'', PStr ''system''), (''content'', PStr instr)] # hist)
           model_override stream model_config"
    and "cp1 = (if tools_of a \<noteq> []
                then dict_set cp ''parallel_tool_calls'' (ParBool (agent_parallel_tool_calls a))
                else cp)"
    and "c log cp1 = Inl e"
    and "cp2 = dict_set (dict_set cp1 ''tools'' ParNone) ''tool_choice'' ParNone"
  shows "get_chat_completion sw log a hist cv model_override stream model_config =
           (map_sum id Some (c (log @ [cp1]) cp2), log @ [cp1, cp2])"
  using assms
  by (cases "c (log @ [cp1]) cp2") (auto simp: get_chat_completion_def call_client_def Let_def)

text \<open>A completion comes back only in the three modes that the engine knows.\<close>

lemma get_chat_completion_known_mode:
  assumes "fst (get_chat_completion sw log a hist cv model_override stream model_config) =
             Inr (Some c)"
  shows "tool_capable (mode sw) \<or> mode sw = ''gemini''"
  using assms
  by (auto simp: get_chat_completion_def tool_capable_def Let_def
      split: sum.splits if_splits)

text \<open>
  Claim C1, at a failing input: mode \<^verbatim>\<open>openai\<close>, an agent with one tool function, a
  client that rejects every request. Two requests are sent; the second has
  \<^verbatim>\<open>tools\<close> and \<^verbatim>\<open>tool_choice\<close> set to \<^verbatim>\<open>None\<close> but still carries the tool-related
  field \<^verbatim>\<open>parallel_tool_calls\<close>, and its failure leaves the function as the client's
  own exception, not as the configuration error.
\<close>

theorem get_chat_completion_second_failure:
  "(let out = get_chat_completion \<lparr>mode = ''openai'', client = Some failing_client\<rparr>
                [] ex_agent [] [] None False []
    in fst out = Inl (Raised ''rejected'') \<and> fst out \<noteq> Inl config_error \<and>
       length (snd out) = 2 \<and>
       dict_get (snd out ! 1) ''tools'' = Some ParNone \<and>
       dict_get (snd out ! 1) ''tool_choice'' = Some ParNone \<and>
       dict_get (snd out ! 1) ''parallel_tool_calls'' = Some (ParBool True))"
  by (simp add: get_chat_completion_def resolve_instructions_def ex_agent_def truthy_def
      build_create_params_def call_client_def failing_client_def config_error_def
      dict_update_def dict_set_def dict_get_def Let_def ex_agent_tools [unfolded ex_agent_def])

subsection \<open>The dispatcher\<close>




subsection \<open>The store\<close>

lemma new_dicts_store:
  "dicts (snd (new_dicts ds s)) = dicts s @ ds \<and> lists (snd (new_dicts ds s)) = lists s \<and>
   fst (new_dicts ds s) = [length (dicts s)..<length (dicts s) + length ds]"
proof (induction ds arbitrary: s)
  case Nil
  then show ?case by simp
next
  case (Cons d ds)
  have "[length (dicts s)..<Suc (length (dicts s) + length ds)] =
      length (dicts s) # [Suc (length (dicts s))..<Suc (length (dicts s) + length ds)]"
    by (rule upt_conv_Cons) simp
  with Cons [of "snd (new_dict d s)"] show ?case
    by (simp add: Let_def new_dict_def)
qed

lemma unchanged_refl: "unchanged s s"
  by (simp add: unchanged_def)

lemma unchanged_length:
  "unchanged s s' \<Longrightarrow> length (lists s) \<le> length (lists s') \<and> length (dicts s) \<le> length (dicts s')"
  unfolding unchanged_def by (metis length_take min.cobounded1 min.commute)

lemma unchanged_list_extend:
  assumes "unchanged s s'" and "length (lists s) \<le> l"
  shows "unchanged s (list_extend l ds s')"
proof -
  from unchanged_length [OF assms(1)] have "length (dicts s) \<le> length (dicts s')" ..
  with assms show ?thesis
    by (simp add: unchanged_def list_extend_def Let_def new_dicts_store)
qed

lemma unchanged_dict_update_at:
  assumes "unchanged s s'" and "length (dicts s) \<le> c"
  shows "unchanged s (dict_update_at c u s')"
  using assms by (simp add: unchanged_def dict_update_at_def)

lemma unchanged_dict_set_at:
  assumes "unchanged s s'" and "length (dicts s) \<le> a"
  shows "unchanged s (dict_set_at a k v s')"
  using assms by (simp add: unchanged_def dict_set_at_def)

lemma get_list_list_extend:
  "get_list (list_extend l ds s) l =
     (if l < length (lists s)
      then get_list s l @ [length (dicts s)..<length (dicts s) + length ds] else [])"
  by (simp add: list_extend_def Let_def new_dicts_store get_list_def)

lemma owned_list_extend:
  assumes "owned s st"
  shows "owned s (st\<lparr>heap := list_extend (history st) ds (heap st)\<rparr>)"
proof -
  from assms have u: "unchanged s (heap st)" and h: "length (lists s) \<le> history st"
    and c: "length (dicts s) \<le> cvars st"
    and a: "list_all (\<lambda>a. length (dicts s) \<le> a) (get_list (heap st) (history st))"
    by (simp_all add: owned_def)
  from unchanged_length [OF u] have "length (dicts s) \<le> length (dicts (heap st))" ..
  then have "list_all (\<lambda>a. length (dicts s) \<le> a)
      [length (dicts (heap st))..<length (dicts (heap st)) + length ds]"
    by (simp add: list_all_iff)
  with a have "list_all (\<lambda>a. length (dicts s) \<le> a)
      (get_list (list_extend (history st) ds (heap st)) (history st))"
    by (simp add: get_list_list_extend)
  with unchanged_list_extend [OF u h] h c show ?thesis
    by (simp add: owned_def)
qed

lemma get_list_dict_update_at: "get_list (dict_update_at c u s) l = get_list s l"
  by (simp add: get_list_def dict_update_at_def)

lemma get_list_dict_set_at: "get_list (dict_set_at a k v s) l = get_list s l"
  by (simp add: get_list_def dict_set_at_def)

lemma owned_dict_update_at:
  assumes "owned s st" and "length (dicts s) \<le> c"
  shows "owned s (st\<lparr>heap := dict_update_at c u (heap st)\<rparr>)"
  using assms unchanged_dict_update_at [of s "heap st" c u]
  by (simp add: owned_def get_list_dict_update_at)

lemma owned_dict_set_at:
  assumes "owned s st" and "length (dicts s) \<le> a"
  shows "owned s (st\<lparr>heap := dict_set_at a k v (heap st)\<rparr>)"
  using assms unchanged_dict_set_at [of s "heap st" a k v]
  by (simp add: owned_def get_list_dict_set_at)

subsection \<open>The context variables of a batch\<close>
















subsection \<open>The frame of a call\<close>

lemma owned_fields:
  "owned s (st\<lparr>sent := x\<rparr>) = owned s st"
  "owned s (st\<lparr>executed := y\<rparr>) = owned s st"
  "owned s (st\<lparr>yielded := z\<rparr>) = owned s st"
  "owned s (st\<lparr>active_agent := a\<rparr>) = owned s st"
  by (simp_all add: owned_def)

lemma owned_enter: "owned s (fst (enter ar s))"
proof -
  let ?D = "length (dicts s)"
  let ?ms = "read_messages (snd (deepcopy_dict (arg_context_variables ar) s)) (arg_messages ar)"
  have "list_all (\<lambda>a. ?D \<le> a) [Suc ?D..<Suc ?D + length ?ms]"
    by (auto simp: list_all_iff)
  then show ?thesis
    by (simp add: owned_def enter_def Let_def deepcopy_dict_def deepcopy_list_def new_dict_def
        new_list_def new_dicts_store unchanged_def get_list_def)
qed

lemma owned_list_append:
  "owned s st \<Longrightarrow> owned s (st\<lparr>heap := list_append (history st) d (heap st)\<rparr>)"
  unfolding list_append_def by (rule owned_list_extend)

lemma owned_apply_partial_response:
  assumes "owned s st"
  shows "owned s (apply_partial_response d st)"
proof -
  let ?st1 = "st\<lparr>heap := list_extend (history st) (messages (fst d)) (heap st)\<rparr>"
  have one: "owned s ?st1"
    using assms by (rule owned_list_extend)
  then have "length (dicts s) \<le> cvars ?st1"
    by (simp add: owned_def)
  from owned_dict_update_at [OF one this, of "context_variables (fst d)"]
  show ?thesis
    by (simp add: apply_partial_response_def owned_fields)
qed

lemma owned_dispatch_turn:
  assumes "owned s st"
  shows "owned s (snd (dispatch_turn sw ar tcs st))"
  using assms owned_apply_partial_response
  by (auto simp: dispatch_turn_def split: sum.splits)

lemma owned_append_message:
  assumes "owned s st"
  shows "owned s (append_message sw m st)"
  using assms owned_list_append by (simp add: append_message_def)

lemma owned_run_turn:
  assumes "owned s st"
  shows "owned s (snd (run_turn sw ar st))"
proof -
  have "owned s (st\<lparr>sent := x\<rparr>)" for x
    using assms by (simp add: owned_fields)
  then show ?thesis
    by (auto simp: run_turn_def Let_def owned_dispatch_turn owned_append_message
        split: sum.splits option.splits completion.splits list.splits)
qed

lemma owned_stream_turn:
  assumes "owned s st"
  shows "owned s (snd (stream_turn sw ar st))"
proof -
  have base: "owned s (st\<lparr>sent := x, yielded := y\<rparr>)" for x y
    using assms by (simp add: owned_fields)
  have "owned s (st\<lparr>sent := x, yielded := y,
      heap := list_append (history st) d (heap st)\<rparr>)" for x y d
    using owned_list_append [OF base [where x = x and y = y], of d] by simp
  then have "owned s (snd (dispatch_turn sw ar tcs (st\<lparr>sent := x, yielded := y,
      heap := list_append (history st) d (heap st)\<rparr>)))" for x y d tcs
    by (rule owned_dispatch_turn)
  with assms base show ?thesis
    by (auto simp: stream_turn_def Let_def owned_fields
        split: sum.splits option.splits completion.splits)
qed

lemma owned_turn_loop:
  assumes "\<And>st. owned s st \<Longrightarrow> owned s (snd (body st))"
    and "owned s st"
    and "turn_loop n body mt init_len st = Some (r, st')"
  shows "owned s st'"
  using assms(2,3)
proof (induction n arbitrary: st)
  case 0
  then show ?case by (simp split: if_splits)
next
  case (Suc n)
  show ?case
  proof (cases "turns_left mt init_len st")
    case False
    with Suc.prems show ?thesis by simp
  next
    case True
    obtain status st1 where b: "body st = (status, st1)"
      by (cases "body st")
    from assms(1) [OF Suc.prems(1)] b have o: "owned s st1"
      by simp
    show ?thesis
    proof (cases status)
      case Continue
      with True b Suc.prems(2) have "turn_loop n body mt init_len st1 = Some (r, st')"
        by simp
      from Suc.IH [OF o this] show ?thesis .
    next
      case Break
      with True b Suc.prems(2) o show ?thesis by simp
    next
      case (Failed e)
      with True b Suc.prems(2) o show ?thesis by simp
    qed
  qed
qed

lemma owned_postprocess:
  assumes "owned s st"
  shows "owned s (snd (postprocess sw init_len st))"
proof (cases "rev (drop init_len (get_list (heap st) (history st)))")
  case Nil
  with assms show ?thesis
    by (simp add: postprocess_def)
next
  case (Cons a earlier)
  then have "a \<in> set (rev (drop init_len (get_list (heap st) (history st))))"
    by simp
  then have "a \<in> set (get_list (heap st) (history st))"
    by (auto dest: in_set_dropD)
  with assms have "length (dicts s) \<le> a"
    by (simp add: owned_def list_all_iff)
  from owned_dict_set_at [OF assms this] assms Cons show ?thesis
    by (simp add: postprocess_def split: sum.splits)
qed

lemma unchanged_inputs:
  assumes "unchanged s s'" and "valid_inputs ar s"
  shows "read_messages s' (arg_messages ar) = read_messages s (arg_messages ar) \<and>
         get_dict s' (arg_context_variables ar) = get_dict s (arg_context_variables ar)"
proof -
  from unchanged_length [OF assms(1)] have
    len: "length (lists s) \<le> length (lists s')" "length (dicts s) \<le> length (dicts s')"
    by simp_all
  have dict: "get_dict s' a = get_dict s a" if "a < length (dicts s)" for a
  proof -
    from assms(1) have "take (length (dicts s)) (dicts s') ! a = dicts s ! a"
      by (simp add: unchanged_def)
    with that len show ?thesis
      by (simp add: get_dict_def)
  qed
  have "take (length (lists s)) (lists s') ! arg_messages ar = lists s ! arg_messages ar"
    using assms(1) by (simp add: unchanged_def)
  with assms(2) len have list: "get_list s' (arg_messages ar) = get_list s (arg_messages ar)"
    by (simp add: get_list_def valid_inputs_def)
  from assms(2) have "\<forall>a \<in> set (get_list s (arg_messages ar)). a < length (dicts s)"
    by (simp add: valid_inputs_def list_all_iff)
  with dict list have "read_messages s' (arg_messages ar) = read_messages s (arg_messages ar)"
    by (simp add: read_messages_def)
  moreover from assms(2) dict have
    "get_dict s' (arg_context_variables ar) = get_dict s (arg_context_variables ar)"
    by (simp add: valid_inputs_def)
  ultimately show ?thesis ..
qed

lemma run_owned:
  assumes "run fuel sw ar s = Some (out, st)"
  shows "owned s st"
proof -
  let ?start = "enter ar s"
  from assms obtain r st1 where
    loop: "turn_loop fuel (run_turn sw ar) (arg_max_turns ar) (snd ?start) (fst ?start) = Some (r, st1)"
    by (auto simp: run_def Let_def split: option.splits)
  have o1: "owned s st1"
    by (rule owned_turn_loop [OF owned_run_turn owned_enter loop])
  show ?thesis
  proof (cases r)
    case (Some e)
    with assms loop o1 show ?thesis
      by (simp add: run_def Let_def)
  next
    case None
    with assms loop have "st = snd (postprocess sw (snd ?start) st1)"
      by (auto simp: run_def Let_def split: option.splits)
    with owned_postprocess [OF o1] show ?thesis
      by simp
  qed
qed

lemma run_and_stream_owned:
  assumes "run_and_stream fuel sw ar s = Some (out, st)"
  shows "owned s st"
proof -
  let ?start = "enter ar s"
  from assms obtain r where
    loop: "turn_loop fuel (stream_turn sw ar) (arg_max_turns ar) (snd ?start) (fst ?start) = Some (r, st)"
    by (auto simp: run_and_stream_def Let_def split: option.splits)
  show ?thesis
    by (rule owned_turn_loop [OF owned_stream_turn owned_enter loop])
qed

text \<open>
  Claim C9. Both entry points copy the caller's message list and context variables at
  entry and work on the copies: when a call ends, with a response or with an
  exception, every object that existed at call start is unchanged, so the caller's
  message list and context variables read as they did, and the local \<^verbatim>\<open>history\<close> and
  \<^verbatim>\<open>context_variables\<close> are other objects than the caller's.
\<close>

theorem caller_inputs_never_mutated:
  assumes "valid_inputs ar s"
    and "run fuel sw ar s = Some (out, st) \<or> run_and_stream fuel sw ar s = Some (out', st)"
  shows "unchanged s (heap st) \<and>
         read_messages (heap st) (arg_messages ar) = read_messages s (arg_messages ar) \<and>
         get_dict (heap st) (arg_context_variables ar) = get_dict s (arg_context_variables ar) \<and>
         history st \<noteq> arg_messages ar \<and> cvars st \<noteq> arg_context_variables ar"
proof -
  from assms(2) have o: "owned s st"
    using run_owned run_and_stream_owned by blast
  then have u: "unchanged s (heap st)"
    by (simp add: owned_def)
  from o assms(1) have "history st \<noteq> arg_messages ar \<and> cvars st \<noteq> arg_context_variables ar"
    by (auto simp: owned_def valid_inputs_def)
  with u unchanged_inputs [OF u assms(1)] show ?thesis
    by simp
qed

lemma ex_run_state:
  "map_option (\<lambda>r. (heap (snd r), history (snd r), cvars (snd r)))
     (run 2 \<lparr>mode = ''openai'', client = Some handoff_client\<rparr> (ex_args ex_agent_a Infinite) ex_store) =
   Some (\<lparr>lists = [[1], [3, 4, 5, 6]],
           dicts = [[(''user'', PStr ''u1'')],
                    [(''role'', PStr ''user''), (''content'', PStr ''hi'')],
                    [(''user'', PStr ''u1'')],
                    [(''role'', PStr ''user''), (''content'', PStr ''hi'')],
                    model_dump (Message None ''assistant'' (Some [transfer_call]) (Some ''A'')),
                    tool_message transfer_call (json_dumps (PDict [(''assistant'', PStr ''B'')])),
                    model_dump (Message (Some ''hello'') ''assistant'' None (Some ''B''))]\<rparr>,
         1, 2)"
  by code_simp

theorem caller_inputs_never_mutated_witness:
  "valid_inputs (ex_args ex_agent_a Infinite) ex_store \<and>
   (\<exists>out st.
      run 2 \<lparr>mode = ''openai'', client = Some handoff_client\<rparr> (ex_args ex_agent_a Infinite) ex_store =
        Some (out, st) \<and>
      length (read_messages (heap st) (history st)) = 4 \<and>
      read_messages (heap st) 0 = [[(''role'', PStr ''user''), (''content'', PStr ''hi'')]] \<and>
      get_dict (heap st) 0 = [(''user'', PStr ''u1'')] \<and>
      history st \<noteq> 0 \<and> cvars st \<noteq> 0)"
proof -
  let ?sw = "\<lparr>mode = ''openai'', client = Some handoff_client\<rparr>"
  let ?ar = "ex_args ex_agent_a Infinite"
  have v: "valid_inputs ?ar ex_store"
    by (simp add: valid_inputs_def ex_args_def ex_store_def get_list_def)
  from ex_run_state obtain out st where
    r: "run 2 ?sw ?ar ex_store = Some (out, st)" and
    h: "heap st = \<lparr>lists = [[1], [3, 4, 5, 6]],
           dicts = [[(''user'', PStr ''u1'')],
                    [(''role'', PStr ''user''), (''content'', PStr ''hi'')],
                    [(''user'', PStr ''u1'')],
                    [(''role'', PStr ''user''), (''content'', PStr ''hi'')],
                    model_dump (Message None ''assistant'' (Some [transfer_call]) (Some ''A'')),
                    tool_message transfer_call (json_dumps (PDict [(''assistant'', PStr ''B'')])),
                    model_dump (Message (Some ''hello'') ''assistant'' None (Some ''B''))]\<rparr>"
    and "history st = 1"
    by (cases "run 2 ?sw ?ar ex_store") auto
  then have len: "length (read_messages (heap st) (history st)) = 4"
    by (simp add: read_messages_def get_list_def)
  have before: "read_messages ex_store (arg_messages ?ar) =
        [[(''role'', PStr ''user''), (''content'', PStr ''hi'')]] \<and>
      get_dict ex_store (arg_context_variables ?ar) = [(''user'', PStr ''u1'')] \<and>
      arg_messages ?ar = 0 \<and> arg_context_variables ?ar = 0"
    by (simp add: read_messages_def get_list_def get_dict_def ex_store_def ex_args_def)
  from r have "run 2 ?sw ?ar ex_store = Some (out, st) \<or>
      run_and_stream 2 ?sw ?ar ex_store = Some (undefined, st)"
    by simp
  from caller_inputs_never_mutated [OF v this] before r len v show ?thesis
    by auto
qed

subsection \<open>The turn loop\<close>

lemma enter_init_len:
  assumes "valid_inputs ar s"
  shows "length (get_list (heap (fst (enter ar s))) (history (fst (enter ar s)))) = snd (enter ar s)"
  using assms
  by (auto simp: enter_def Let_def deepcopy_dict_def deepcopy_list_def new_dict_def new_list_def
      new_dicts_store get_list_def valid_inputs_def read_messages_def nth_append Suc_le_eq)

lemma enter_context_variables:
  "get_dict (heap (fst (enter ar s))) (cvars (fst (enter ar s))) =
     get_dict s (arg_context_variables ar)"
  by (simp add: enter_def Let_def deepcopy_dict_def deepcopy_list_def new_dict_def new_list_def
      new_dicts_store get_dict_def nth_append)

lemma turn_loop_zero_turns:
  assumes "length (get_list (heap st) (history st)) = init_len"
  shows "turn_loop fuel body (Turns 0) init_len st = Some (None, st)"
  using assms by (cases fuel) (simp_all add: turns_left_def)

lemma run_zero_turns:
  assumes "arg_max_turns ar = Turns 0" and "\<not> in_gemini (mode sw)" and "valid_inputs ar s"
  shows "map_option fst (run fuel sw ar s) =
           Some (Inr (Response [] (Some (arg_agent ar)) (get_dict s (arg_context_variables ar))))"
proof -
  have agent: "active_agent (fst (enter ar s)) = arg_agent ar"
    by (simp add: enter_def Let_def)
  from enter_init_len [OF assms(3)] have
    "drop (snd (enter ar s)) (read_messages (heap (fst (enter ar s))) (history (fst (enter ar s)))) = []"
    by (simp add: read_messages_def)
  with assms(1,2) turn_loop_zero_turns [OF enter_init_len [OF assms(3)]]
    enter_context_variables [of ar s] agent
  show ?thesis
    by (simp add: run_def Let_def postprocess_def response_of_def)
qed

lemma run_zero_turns_gemini:
  assumes "arg_max_turns ar = Turns 0" and "in_gemini (mode sw)" and "valid_inputs ar s"
  shows "map_option fst (run fuel sw ar s) = Some (Inl IndexError)"
proof -
  from enter_init_len [OF assms(3)] have
    "drop (snd (enter ar s)) (get_list (heap (fst (enter ar s))) (history (fst (enter ar s)))) = []"
    by simp
  with assms(1,2) turn_loop_zero_turns [OF enter_init_len [OF assms(3)]]
  show ?thesis
    by (simp add: run_def Let_def postprocess_def)
qed

lemma consume_sender: "sm_sender (fst (snd (consume nm chunks m evs))) = sm_sender m"
  by (induction nm chunks m evs rule: consume.induct) (auto simp: merge_chunk_def split: list.splits)

lemma length_list_extend:
  assumes "l < length (lists s)"
  shows "length (lists (list_extend l ds s)) = length (lists s) \<and>
         length (get_list (list_extend l ds s) l) = length (get_list s l) + length ds"
  using assms by (simp add: list_extend_def Let_def new_dicts_store get_list_def)

lemma length_dict_update_at:
  "lists (dict_update_at c u s) = lists s"
  by (simp add: dict_update_at_def)

lemma live_enter: "live (fst (enter ar s))"
  by (simp add: live_def enter_def Let_def deepcopy_dict_def deepcopy_list_def new_dict_def
      new_list_def new_dicts_store)

lemma apply_partial_response_grows:
  assumes "live st"
  shows "live (apply_partial_response d st) \<and>
         history (apply_partial_response d st) = history st \<and>
         length (get_list (heap st) (history st)) \<le>
           length (get_list (heap (apply_partial_response d st)) (history st))"
  using assms length_list_extend [of "history st" "heap st" "messages (fst d)"]
  by (simp add: live_def apply_partial_response_def get_list_dict_update_at length_dict_update_at)

lemma dispatch_turn_continue:
  assumes "live st" and "dispatch_turn sw ar tcs st = (Continue, st')"
  shows "live st' \<and> history st' = history st \<and>
         length (get_list (heap st) (history st)) \<le> length (get_list (heap st') (history st))"
proof -
  from assms(2) obtain d where "st' = apply_partial_response d st"
    by (auto simp: dispatch_turn_def split: if_splits sum.splits)
  with apply_partial_response_grows [OF assms(1)] show ?thesis
    by simp
qed

lemma in_gemini_gemini: "in_gemini ''gemini''"
  by (simp add: in_gemini_def)

lemma append_message_grows:
  assumes "live st" and "tool_capable (mode sw) \<or> mode sw = ''gemini''"
  shows "live (append_message sw m st) \<and> history (append_message sw m st) = history st \<and>
         length (get_list (heap (append_message sw m st)) (history st)) =
           Suc (length (get_list (heap st) (history st)))"
  using assms length_list_extend [of "history st" "heap st"] in_gemini_gemini
  by (auto simp: append_message_def live_def list_append_def tool_capable_def)

lemma run_turn_continue:
  assumes "live st" and "run_turn sw ar st = (Continue, st')"
  shows "live st' \<and> history st' = history st \<and>
         length (get_list (heap st) (history st)) < length (get_list (heap st') (history st))"
proof -
  let ?out = "get_chat_completion sw (sent st) (active_agent st)
      (read_messages (heap st) (history st)) (get_dict (heap st) (cvars st))
      (arg_model_override ar) False (arg_model_config ar)"
  let ?st1 = "st\<lparr>sent := snd ?out\<rparr>"
  from assms(2) obtain m0 rest where c: "fst ?out = Inr (Some (ChatCompletion (m0 # rest)))"
    by (auto simp: run_turn_def Let_def
        split: sum.splits option.splits completion.splits list.splits)
  define m where "m = Message (msg_content m0) (msg_role m0) (msg_tool_calls m0)
      (Some (agent_name (active_agent st)))"
  from assms(2) c have d: "dispatch_turn sw ar (msg_tool_calls m) (append_message sw m ?st1) =
      (Continue, st')"
    by (simp add: run_turn_def Let_def m_def)
  have l1: "live ?st1"
    using assms(1) by (simp add: live_def)
  from append_message_grows [OF l1 get_chat_completion_known_mode [OF c], of m]
    dispatch_turn_continue [OF _ d]
  show ?thesis
    by simp
qed

lemma stream_turn_continue:
  assumes "live st" and "stream_turn sw ar st = (Continue, st')"
  shows "live st' \<and> history st' = history st \<and>
         length (get_list (heap st) (history st)) < length (get_list (heap st') (history st))"
proof -
  from assms(2) obtain x y d tcs where
    d: "dispatch_turn sw ar tcs (st\<lparr>sent := x, yielded := y,
          heap := list_append (history st) d (heap st)\<rparr>) = (Continue, st')"
    by (auto simp: stream_turn_def Let_def
        split: sum.splits option.splits completion.splits)
  let ?st4 = "st\<lparr>sent := x, yielded := y, heap := list_append (history st) d (heap st)\<rparr>"
  from assms(1) length_list_extend [of "history st" "heap st" "[d]"]
  have "live ?st4 \<and> history ?st4 = history st \<and>
      length (get_list (heap ?st4) (history st)) = Suc (length (get_list (heap st) (history st)))"
    by (simp add: live_def list_append_def)
  with dispatch_turn_continue [OF _ d] show ?thesis
    by simp
qed

lemma turn_loop_returns:
  assumes step: "\<And>st st'. live st \<Longrightarrow> body st = (Continue, st') \<Longrightarrow>
      live st' \<and> history st' = history st \<and>
      length (get_list (heap st) (history st)) < length (get_list (heap st') (history st))"
    and "live st"
    and "n - (int (length (get_list (heap st) (history st))) - int init_len) \<le> int fuel"
  shows "\<exists>r. turn_loop fuel body (Turns n) init_len st = Some r"
  using assms(2,3)
proof (induction fuel arbitrary: st)
  case 0
  then show ?case by (simp add: turns_left_def)
next
  case (Suc fuel)
  show ?case
  proof (cases "turns_left (Turns n) init_len st")
    case False
    then show ?thesis by simp
  next
    case True
    obtain status st1 where b: "body st = (status, st1)"
      by (cases "body st")
    show ?thesis
    proof (cases status)
      case Continue
      from step [OF Suc.prems(1) b [unfolded Continue]] Suc.prems(2)
      have "live st1" and
        "n - (int (length (get_list (heap st1) (history st1))) - int init_len) \<le> int fuel"
        by auto
      from Suc.IH [OF this] True b Continue show ?thesis
        by simp
    next
      case Break
      with True b show ?thesis by simp
    next
      case (Failed e)
      with True b show ?thesis by simp
    qed
  qed
qed

text \<open>
  With a finite \<^verbatim>\<open>max_turns\<close> both loops end: every turn that goes on has added a
  message to the history, so a fuel of \<^verbatim>\<open>max_turns\<close> suffices.
\<close>

lemma bounded_runs_return:
  assumes "valid_inputs ar s" and "arg_max_turns ar = Turns n" and "n \<le> int fuel"
  shows "(\<exists>r. run fuel sw ar s = Some r) \<and> (\<exists>r. run_and_stream fuel sw ar s = Some r)"
proof -
  let ?st = "fst (enter ar s)"
  from enter_init_len [OF assms(1)] assms(3) have
    m: "n - (int (length (get_list (heap ?st) (history ?st))) - int (snd (enter ar s))) \<le> int fuel"
    by simp
  have "\<exists>r. turn_loop fuel (run_turn sw ar) (Turns n) (snd (enter ar s)) ?st = Some r"
    by (rule turn_loop_returns [OF _ live_enter m]) (rule run_turn_continue)
  then have "\<exists>r. run fuel sw ar s = Some r"
    using assms(2) by (auto simp: run_def Let_def split: option.splits)
  moreover
  have "\<exists>r. turn_loop fuel (stream_turn sw ar) (Turns n) (snd (enter ar s)) ?st = Some r"
    by (rule turn_loop_returns [OF _ live_enter m]) (rule stream_turn_continue)
  then have "\<exists>r. run_and_stream fuel sw ar s = Some r"
    using assms(2) by (auto simp: run_and_stream_def Let_def split: option.splits)
  ultimately show ?thesis ..
qed

text \<open>
  Claim C3, at a failing input: in mode \<^verbatim>\<open>gemini\<close>, \<^verbatim>\<open>run\<close> with \<^verbatim>\<open>max_turns=0\<close>
  does not return the empty response. The loop is not entered, and the post-processing
  of the last message indexes the empty list of new messages: the call raises
  \<^verbatim>\<open>IndexError\<close>. (In the other modes it returns the empty response with the input
  agent, lemma \<open>run_zero_turns\<close>.)
\<close>

theorem run_gemini_max_turns_zero:
  "map_option (\<lambda>r. map_sum id messages (fst r))
     (run 1 \<lparr>mode = ''gemini'', client = Some plain_client\<rparr>
        (ex_args ex_agent_b (Turns 0)) ex_store) =
   Some (Inl IndexError)"
  by code_simp

text \<open>The blocking loop tags the message of the second turn with the agent that the
  first turn handed over to.\<close>

lemma run_sender_after_handoff:
  "map_option (\<lambda>r. map_sum id (\<lambda>resp. (senders resp, map_option agent_name (agent resp))) (fst r))
     (run 2 \<lparr>mode = ''openai'', client = Some handoff_client\<rparr>
        (ex_args ex_agent_a Infinite) ex_store) =
   Some (Inr ([Some (PStr ''A''), None, Some (PStr ''B'')], Some ''B''))"
  by code_simp

text \<open>
  Claim C4, at a failing input: a streamed run in which the first turn hands over from
  agent \<open>A\<close> to agent \<open>B\<close>. The assistant message of the second turn, produced with
  \<open>B\<close> active, is appended to the history with sender \<open>A\<close>: the fresh message of
  a streamed turn takes its sender from the parameter \<^verbatim>\<open>agent\<close>, and the sender that
  tags the deltas with the active agent is popped before the merge.
\<close>

theorem run_and_stream_sender_after_handoff:
  "map_option (\<lambda>r. map_sum id
       (\<lambda>evs. map_option (\<lambda>resp. (senders resp, map_option agent_name (agent resp)))
                 (final_response evs)) (fst r))
     (run_and_stream 2 \<lparr>mode = ''openai'', client = Some handoff_stream_client\<rparr>
        (ex_args ex_agent_a Infinite) ex_store) =
   Some (Inr (Some ([Some (PStr ''A''), None, Some (PStr ''A'')], Some ''B'')))"
  by code_simp

subsection \<open>The post-processing of \<^verbatim>\<open>gemini\<close> mode\<close>

text \<open>An answer that is the text \<^verbatim>\<open>None\<close> is stored as valid JSON, and comes back as
  \<^verbatim>\<open>null\<close>.\<close>

lemma run_gemini_none_content:
  "map_option (\<lambda>r. map_sum id messages (fst r))
     (run 1 \<lparr>mode = ''gemini'',
              client = Some (\<lambda>log req. Inr (ChatCompletion [Message (Some ''None'') ''assistant'' None None]))\<rparr>
        (ex_args ex_agent_b Infinite) ex_store) =
   Some (Inr [[(''role'', PStr ''assistant''), (''content'', PStr ''null'')]])"
  by code_simp

lemma apostrophe_entry_invalid:
  "json_loads (gemini_content (Message (Some (''it'' @ [squote] @ ''s'')) ''assistant'' None (Some ''B''))) =
     Inl JSONDecodeError"
  by code_simp

lemma apostrophe_turn_succeeds:
  "map_option fst
     (turn_loop 1 (run_turn \<lparr>mode = ''gemini'', client = Some apostrophe_client\<rparr>
                     (ex_args ex_agent_b Infinite))
        Infinite (snd (enter (ex_args ex_agent_b Infinite) ex_store))
        (fst (enter (ex_args ex_agent_b Infinite) ex_store))) = Some None"
  by code_simp

lemma apostrophe_run_fails:
  "map_option (\<lambda>r. map_sum id messages (fst r))
     (run 1 \<lparr>mode = ''gemini'', client = Some apostrophe_client\<rparr>
        (ex_args ex_agent_b Infinite) ex_store) =
   Some (Inl JSONDecodeError)"
  by code_simp

text \<open>
  Claim C10. In mode \<^verbatim>\<open>gemini\<close> there is an assistant message content (one with an
  apostrophe) for which the stored history entry is not valid JSON: the only turn of the
  run succeeds, and the post-processing of the last message raises the decoding error,
  which ends the call.
\<close>

theorem gemini_postprocessing_can_fail:
  "\<exists>content.
     json_loads (gemini_content (Message (Some content) ''assistant'' None (Some ''B''))) =
       Inl JSONDecodeError \<and>
     map_option fst
       (turn_loop 1
          (run_turn \<lparr>mode = ''gemini'',
                      client = Some (\<lambda>log req. Inr (ChatCompletion [Message (Some content) ''assistant'' None None]))\<rparr>
             (ex_args ex_agent_b Infinite))
          Infinite (snd (enter (ex_args ex_agent_b Infinite) ex_store))
          (fst (enter (ex_args ex_agent_b Infinite) ex_store))) = Some None \<and>
     map_option (\<lambda>r. map_sum id messages (fst r))
       (run 1 \<lparr>mode = ''gemini'',
                client = Some (\<lambda>log req. Inr (ChatCompletion [Message (Some content) ''assistant'' None None]))\<rparr>
          (ex_args ex_agent_b Infinite) ex_store) =
     Some (Inl JSONDecodeError)"
proof (intro exI conjI)
  show "json_loads (gemini_content (Message (Some (''it'' @ [squote] @ ''s'')) ''assistant'' None (Some ''B''))) =
      Inl JSONDecodeError"
    by (rule apostrophe_entry_invalid)
  show "map_option fst
       (turn_loop 1
          (run_turn \<lparr>mode = ''gemini'',
                      client = Some (\<lambda>log req. Inr (ChatCompletion [Message (Some (''it'' @ [squote] @ ''s'')) ''assistant'' None None]))\<rparr>
             (ex_args ex_agent_b Infinite))
          Infinite (snd (enter (ex_args ex_agent_b Infinite) ex_store))
          (fst (enter (ex_args ex_agent_b Infinite) ex_store))) = Some None"
    using apostrophe_turn_succeeds by (simp add: apostrophe_client_def [abs_def])
  show "map_option (\<lambda>r. map_sum id messages (fst r))
       (run 1 \<lparr>mode = ''gemini'',
                client = Some (\<lambda>log req. Inr (ChatCompletion [Message (Some (''it'' @ [squote] @ ''s'')) ''assistant'' None None]))\<rparr>
          (ex_args ex_agent_b Infinite) ex_store) =
     Some (Inl JSONDecodeError)"
    using apostrophe_run_fails by (simp add: apostrophe_client_def [abs_def])
qed

end
